theory Spec2Isabelle
  imports Complex_Main
begin

section \<open>JavaScript values and strings\<close>

text \<open>
  The proxy works on decoded JSON request bodies. A decoded body is a tree of JavaScript
  values: \<open>null\<close>, booleans, numbers, strings, arrays and plain objects. An object is kept
  as its list of own properties in insertion order, which is what \<open>Object.keys\<close> walks.
  The value \<open>undefined\<close> never occurs inside a decoded body; it only appears as the result
  of reading a property that is absent, and is modelled by \<open>None\<close>.

  A JavaScript number is a double: a finite value (kept here as the rational it denotes),
  one of the two infinities (an overflowing literal such as \<open>1e999\<close> decodes to
  \<open>Infinity\<close>), or \<open>NaN\<close>.

  A JavaScript string is a sequence of UTF-16 code units and \<open>length\<close> counts code units.
  A string is modelled as a \<open>string\<close>, one \<open>char\<close> per code unit, so only code units below
  256 are representable.
\<close>

datatype jsnumber = Finite rat | PosInfinity | NegInfinity | NaN

datatype json =
    JNull
  | JBool bool
  | JNum jsnumber
  | JStr string
  | JArr "json list"
  | JObj "(string \<times> json) list"

text \<open>\<open>typeof v\<close>, for a value that is not \<open>undefined\<close>.\<close>

fun typeof :: "json \<Rightarrow> string" where
  "typeof JNull = ''object''"
| "typeof (JBool b) = ''boolean''"
| "typeof (JNum n) = ''number''"
| "typeof (JStr s) = ''string''"
| "typeof (JArr xs) = ''object''"
| "typeof (JObj kvs) = ''object''"

text \<open>\<open>typeof v\<close> where \<open>v\<close> may be \<open>undefined\<close>.\<close>

fun typeof_opt :: "json option \<Rightarrow> string" where
  "typeof_opt None = ''undefined''"
| "typeof_opt (Some v) = typeof v"

text \<open>
  Reading a property \<open>v.k\<close> of a value that is neither \<open>null\<close> nor \<open>undefined\<close>. Only
  the property names the proxy reads are meant (\<open>model\<close>, \<open>messages\<close>, \<open>type\<close>, \<open>text\<close>, ...):
  none of them is inherited from a built-in prototype, so on a primitive or an array the
  result is \<open>undefined\<close>. Reading a property of \<open>null\<close> throws a \<open>TypeError\<close>; every caller
  below handles that case before it calls \<open>js_prop\<close>.
\<close>

fun js_prop :: "json \<Rightarrow> string \<Rightarrow> json option" where
  "js_prop (JObj kvs) k = map_of kvs k"
| "js_prop v k = None"

text \<open>Truthiness of a value that may be \<open>undefined\<close>.\<close>

fun truthy :: "json option \<Rightarrow> bool" where
  "truthy None = False"
| "truthy (Some JNull) = False"
| "truthy (Some (JBool b)) = b"
| "truthy (Some (JNum (Finite q))) = (q \<noteq> 0)"
| "truthy (Some (JNum NaN)) = False"
| "truthy (Some (JNum n)) = True"
| "truthy (Some (JStr s)) = (s \<noteq> [])"
| "truthy (Some (JArr xs)) = True"
| "truthy (Some (JObj kvs)) = True"

text \<open>\<open>Array.isArray\<close>.\<close>

fun isArray :: "json option \<Rightarrow> bool" where
  "isArray (Some (JArr xs)) = True"
| "isArray v = False"

subsection \<open>String operations\<close>

text \<open>\<open>s.startsWith(p)\<close> and \<open>s.includes(sub)\<close>.\<close>

definition startsWith :: "string \<Rightarrow> string \<Rightarrow> bool" where
  "startsWith s p = (take (length p) s = p)"

fun js_includes :: "string \<Rightarrow> string \<Rightarrow> bool" where
  "js_includes [] sub = (sub = [])"
| "js_includes (c # s) sub = (startsWith (c # s) sub \<or> js_includes s sub)"

text \<open>
  \<open>s.toLowerCase()\<close> on code units below 256: the ASCII capitals and the Latin-1 capitals
  (\<open>0xC0\<close> to \<open>0xDE\<close> without the multiplication sign \<open>0xD7\<close>) move up by 32.
\<close>

definition isUpper :: "char \<Rightarrow> bool" where
  "isUpper c =
     (let n = (of_char c :: nat)
      in (65 \<le> n \<and> n \<le> 90) \<or> (192 \<le> n \<and> n \<le> 222 \<and> n \<noteq> 215))"

definition toLowerChar :: "char \<Rightarrow> char" where
  "toLowerChar c = (if isUpper c then char_of ((of_char c :: nat) + 32) else c)"

definition toLowerCase :: "string \<Rightarrow> string" where
  "toLowerCase s = map toLowerChar s"

text \<open>White space as \<open>trim\<close> and the regular-expression class \<open>\s\<close> see it, below 256.\<close>

definition isSpace :: "char \<Rightarrow> bool" where
  "isSpace c = (let n = (of_char c :: nat) in (9 \<le> n \<and> n \<le> 13) \<or> n = 32 \<or> n = 160)"

text \<open>Decimal rendering of an array index, as a template literal prints it.\<close>

fun decimal :: "nat \<Rightarrow> string" where
  "decimal n =
     (if n < 10 then [''0123456789'' ! n]
      else decimal (n div 10) @ [''0123456789'' ! (n mod 10)])"

subsection \<open>Built-ins of the host\<close>

text \<open>
  Five built-ins of the JavaScript host are used by the proxy and are not part of it:
  the \<open>URL\<close> constructor (does it accept the string), the rendering of a number as a
  string, the conversion of a string to a number, \<open>JSON.parse\<close> (\<open>None\<close> when it
  throws) and \<open>JSON.stringify\<close> of a value that is not \<open>undefined\<close>. They are
  parameters of the model; every theorem holds for any host.
\<close>

record host =
  isValidURL :: "string \<Rightarrow> bool"
  numberToString :: "jsnumber \<Rightarrow> string"
  stringToNumber :: "string \<Rightarrow> jsnumber"
  JSON_parse :: "string \<Rightarrow> json option"
  JSON_stringify :: "json \<Rightarrow> string"

text \<open>
  \<open>String(v)\<close>, the conversion a template literal, \<open>join\<close> and \<open>RegExp.test\<close> apply.
  Inside \<open>join\<close> an element that is \<open>null\<close> contributes the empty string.
\<close>

fun js_String :: "host \<Rightarrow> json \<Rightarrow> string"
  and js_join :: "host \<Rightarrow> string \<Rightarrow> json list \<Rightarrow> string"
  and js_join_elem :: "host \<Rightarrow> json \<Rightarrow> string"
where
  "js_String h JNull = ''null''"
| "js_String h (JBool b) = (if b then ''true'' else ''false'')"
| "js_String h (JNum n) = numberToString h n"
| "js_String h (JStr s) = s"
| "js_String h (JArr xs) = js_join h '','' xs"
| "js_String h (JObj kvs) = ''[object Object]''"
| "js_join h sep [] = []"
| "js_join h sep [x] = js_join_elem h x"
| "js_join h sep (x # y # ys) = js_join_elem h x @ sep @ js_join h sep (y # ys)"
| "js_join_elem h JNull = []"
| "js_join_elem h (JBool b) = js_String h (JBool b)"
| "js_join_elem h (JNum n) = js_String h (JNum n)"
| "js_join_elem h (JStr s) = js_String h (JStr s)"
| "js_join_elem h (JArr xs) = js_String h (JArr xs)"
| "js_join_elem h (JObj kvs) = js_String h (JObj kvs)"

text \<open>
  \<open>ToNumber(v)\<close>, the conversion the comparison \<open>v > 0\<close> applies; \<open>undefined\<close>
  converts to \<open>NaN\<close>. \<open>JSON.stringify(v)\<close> of \<open>undefined\<close> is \<open>undefined\<close>.
\<close>

fun toNumber :: "host \<Rightarrow> json option \<Rightarrow> jsnumber" where
  "toNumber h None = NaN"
| "toNumber h (Some JNull) = Finite 0"
| "toNumber h (Some (JBool b)) = (if b then Finite 1 else Finite 0)"
| "toNumber h (Some (JNum n)) = n"
| "toNumber h (Some (JStr s)) = stringToNumber h s"
| "toNumber h (Some (JArr xs)) = stringToNumber h (js_String h (JArr xs))"
| "toNumber h (Some (JObj kvs)) = stringToNumber h (js_String h (JObj kvs))"

fun stringify :: "host \<Rightarrow> json option \<Rightarrow> json option" where
  "stringify h None = None"
| "stringify h (Some v) = Some (JStr (JSON_stringify h v))"

text \<open>
  An object literal, as it is serialised: a property whose value is \<open>undefined\<close> is not
  written by \<open>JSON.stringify\<close>, so it is left out of the object.
\<close>

fun object :: "(string \<times> json option) list \<Rightarrow> json" where
  "object props =
     JObj (concat (map (\<lambda>(k, v). case v of None \<Rightarrow> [] | Some x \<Rightarrow> [(k, x)]) props))"

text \<open>\<open>v[0]\<close> for a value that is neither \<open>null\<close> nor \<open>undefined\<close>.\<close>

fun index0 :: "json \<Rightarrow> json option" where
  "index0 (JArr []) = None"
| "index0 (JArr (x # xs)) = Some x"
| "index0 (JStr []) = None"
| "index0 (JStr (c # s)) = Some (JStr [c])"
| "index0 (JObj kvs) = map_of kvs ''0''"
| "index0 v = None"

text \<open>\<open>v.length\<close> for a value that is neither \<open>null\<close> nor \<open>undefined\<close>.\<close>

fun js_length :: "json \<Rightarrow> json option" where
  "js_length (JArr xs) = Some (JNum (Finite (of_nat (length xs))))"
| "js_length (JStr s) = Some (JNum (Finite (of_nat (length s))))"
| "js_length (JObj kvs) = map_of kvs ''length''"
| "js_length v = None"

text \<open>Comparison of a number with a finite bound; every comparison with \<open>NaN\<close> is false.\<close>

fun num_lt :: "jsnumber \<Rightarrow> rat \<Rightarrow> bool" where
  "num_lt (Finite q) r = (q < r)"
| "num_lt NegInfinity r = True"
| "num_lt PosInfinity r = False"
| "num_lt NaN r = False"

fun num_gt :: "jsnumber \<Rightarrow> rat \<Rightarrow> bool" where
  "num_gt (Finite q) r = (q > r)"
| "num_gt PosInfinity r = True"
| "num_gt NegInfinity r = False"
| "num_gt NaN r = False"

text \<open>\<open>Number.isInteger\<close>.\<close>

fun isInteger :: "jsnumber \<Rightarrow> bool" where
  "isInteger (Finite q) = (of_int (floor q) = q)"
| "isInteger n = False"

text \<open>
  Writing a property of an object: an existing key keeps its place, a new key goes last.
  \<open>own_props\<close> is what an object spread copies.
\<close>

fun setProp :: "string \<Rightarrow> json \<Rightarrow> (string \<times> json) list \<Rightarrow> (string \<times> json) list" where
  "setProp k v [] = [(k, v)]"
| "setProp k v ((k', v') # rest) =
     (if k' = k then (k, v) # rest else (k', v') # setProp k v rest)"

fun own_props :: "json \<Rightarrow> (string \<times> json) list" where
  "own_props (JObj kvs) = kvs"
| "own_props (JArr xs) = zip (map decimal [0..<length xs]) xs"
| "own_props (JStr s) = zip (map decimal [0..<length s]) (map (\<lambda>c. JStr [c]) s)"
| "own_props v = []"

section \<open>Request validation\<close>

text \<open>The validators of \<open>utils/validators.js\<close>.\<close>

subsection \<open>Allowed models and limits\<close>

definition allowedPrefixes :: "string list" where
  "allowedPrefixes =
     [''claude-'', ''gemini-'', ''gpt-os-'', ''gpt-4-'', ''local-'', ''lmstudio-'',
      ''deepseek-'', ''qwen-'']"

definition isAllowedModel :: "json option \<Rightarrow> bool" where
  "isAllowedModel modelId =
     (if \<not> truthy modelId \<or> typeof_opt modelId \<noteq> ''string'' then False
      else case modelId of
        Some (JStr s) \<Rightarrow> list_ex (\<lambda>prefix. startsWith (toLowerCase s) prefix) allowedPrefixes
      | _ \<Rightarrow> False)"

definition MAX_MESSAGE_LENGTH :: nat where "MAX_MESSAGE_LENGTH = 2000000"
definition MAX_MESSAGES :: nat where "MAX_MESSAGES = 500"
definition MAX_BLOCKS_PER_MESSAGE :: nat where "MAX_BLOCKS_PER_MESSAGE = 1000"
definition MAX_TOOLS :: nat where "MAX_TOOLS = 100"
definition MAX_TOOL_NAME_LENGTH :: nat where "MAX_TOOL_NAME_LENGTH = 256"
definition MAX_SYSTEM_PROMPT_LENGTH :: nat where "MAX_SYSTEM_PROMPT_LENGTH = 100000"
definition MAX_TOKENS_UPPER :: int where "MAX_TOKENS_UPPER = 200000"
definition MAX_TOKENS_DEFAULT :: rat where "MAX_TOKENS_DEFAULT = 8192"
definition MAX_IMAGE_SIZE :: nat where "MAX_IMAGE_SIZE = 10000000"
definition MAX_SIGNATURE_LENGTH :: nat where "MAX_SIGNATURE_LENGTH = 10000"

subsection \<open>Prototype-pollution scan\<close>

definition DANGEROUS_KEYS :: "string list" where
  "DANGEROUS_KEYS = [''__proto__'', ''constructor'', ''prototype'']"

text \<open>
  \<open>hasPrototypePollution(obj, seen, depth)\<close>. The \<open>seen\<close> set stops the scan from
  entering the same object twice; a decoded JSON body is a tree, no object in it is
  reached twice, so the test on \<open>seen\<close> never succeeds and the set is left out. The two
  loops (over array elements, over object keys) are the two list functions; each returns at
  the first hit.
\<close>

fun hasPrototypePollution :: "json \<Rightarrow> nat \<Rightarrow> bool"
  and hasPrototypePollution_items :: "json list \<Rightarrow> nat \<Rightarrow> bool"
  and hasPrototypePollution_keys :: "(string \<times> json) list \<Rightarrow> nat \<Rightarrow> bool"
where
  "hasPrototypePollution obj depth =
     (if depth > 50 then True
      else case obj of
        JArr items \<Rightarrow> hasPrototypePollution_items items depth
      | JObj kvs \<Rightarrow> hasPrototypePollution_keys kvs depth
      | _ \<Rightarrow> False)"
| "hasPrototypePollution_items [] depth = False"
| "hasPrototypePollution_items (item # rest) depth =
     (if hasPrototypePollution item (depth + 1) then True
      else hasPrototypePollution_items rest depth)"
| "hasPrototypePollution_keys [] depth = False"
| "hasPrototypePollution_keys ((key, v) # rest) depth =
     (if List.member DANGEROUS_KEYS key then True
      else if hasPrototypePollution v (depth + 1) then True
      else hasPrototypePollution_keys rest depth)"

subsection \<open>Type validators\<close>

definition isNonEmptyString :: "json option \<Rightarrow> nat option \<Rightarrow> bool" where
  "isNonEmptyString v maxLength =
     (case v of
        Some (JStr s) \<Rightarrow>
          (if list_all isSpace s then False
           else case maxLength of
                  Some m \<Rightarrow> (if m \<noteq> 0 \<and> length s > m then False else True)
                | None \<Rightarrow> True)
      | _ \<Rightarrow> False)"

definition isPositiveInt :: "json option \<Rightarrow> int \<Rightarrow> int \<Rightarrow> bool" where
  "isPositiveInt v lo hi =
     (case v of
        Some (JNum n) \<Rightarrow>
          (if \<not> isInteger n then False
           else if num_lt n (of_int lo) \<or> num_gt n (of_int hi) then False
           else True)
      | _ \<Rightarrow> False)"

definition isNumberInRange :: "json option \<Rightarrow> rat \<Rightarrow> rat \<Rightarrow> bool" where
  "isNumberInRange v lo hi =
     (case v of
        Some (JNum n) \<Rightarrow>
          (if n = NaN then False
           else if num_lt n lo \<or> num_gt n hi then False
           else True)
      | _ \<Rightarrow> False)"

subsection \<open>Content blocks\<close>

text \<open>A validator answers \<open>{valid: true}\<close> or \<open>{valid: false, error}\<close>.\<close>

datatype verdict = Ok | Bad string

definition validateTextBlock :: "json \<Rightarrow> verdict" where
  "validateTextBlock block =
     (if js_prop block ''type'' \<noteq> Some (JStr ''text'') then Bad ''Invalid text block type''
      else case js_prop block ''text'' of
        Some (JStr t) \<Rightarrow>
          (if length t > MAX_MESSAGE_LENGTH then Bad ''Text exceeds 2000000 character limit''
           else Ok)
      | _ \<Rightarrow> Bad ''Text must be a string'')"

text \<open>\<open>/^image\/(jpeg|png|gif|webp)$/.test(v)\<close>; \<open>test\<close> converts its argument to a string.\<close>

definition isImageMediaType :: "host \<Rightarrow> json \<Rightarrow> bool" where
  "isImageMediaType h v =
     List.member [''image/jpeg'', ''image/png'', ''image/gif'', ''image/webp''] (js_String h v)"

definition validateImageBlock :: "host \<Rightarrow> json \<Rightarrow> verdict" where
  "validateImageBlock h block =
     (if js_prop block ''type'' \<noteq> Some (JStr ''image'') then Bad ''Invalid image block type''
      else case js_prop block ''source'' of
        None \<Rightarrow> Bad ''Image source is required''
      | Some source \<Rightarrow>
          if \<not> truthy (Some source) \<or> typeof source \<noteq> ''object''
          then Bad ''Image source is required''
          else if js_prop source ''type'' = Some (JStr ''base64'') then
            (case js_prop source ''data'' of
               Some (JStr d) \<Rightarrow>
                 (if length d > MAX_IMAGE_SIZE then Bad ''Image exceeds 10MB size limit''
                  else case js_prop source ''media_type'' of
                    None \<Rightarrow> Ok
                  | Some mt \<Rightarrow>
                      if truthy (Some mt) \<and> \<not> isImageMediaType h mt
                      then Bad ''Invalid image media type'' else Ok)
             | _ \<Rightarrow> Bad ''Image data must be a string'')
          else if js_prop source ''type'' = Some (JStr ''url'') then
            (case js_prop source ''url'' of
               Some (JStr u) \<Rightarrow> (if isValidURL h u then Ok else Bad ''Invalid image URL'')
             | _ \<Rightarrow> Bad ''Image URL must be a string'')
          else Bad ''Image source type must be base64 or url'')"

text \<open>\<open>/^[a-zA-Z0-9_-]+$/.test(s)\<close> for a string \<open>s\<close>.\<close>

definition isToolNameChar :: "char \<Rightarrow> bool" where
  "isToolNameChar c =
     (c \<in> set ''abcdefghijklmnopqrstuvwxyzABCDEFGHIJKLMNOPQRSTUVWXYZ0123456789_-'')"

definition isToolName :: "string \<Rightarrow> bool" where
  "isToolName s = (s \<noteq> [] \<and> list_all isToolNameChar s)"

definition validateToolUseBlock :: "json \<Rightarrow> verdict" where
  "validateToolUseBlock block =
     (if js_prop block ''type'' \<noteq> Some (JStr ''tool_use'') then Bad ''Invalid tool_use block type''
      else if \<not> isNonEmptyString (js_prop block ''id'') (Some 128)
        then Bad ''tool_use.id must be a non-empty string (max 128 chars)''
      else if \<not> isNonEmptyString (js_prop block ''name'') (Some MAX_TOOL_NAME_LENGTH)
        then Bad ''tool_use.name must be a non-empty string''
      else case js_prop block ''name'' of
        Some (JStr name) \<Rightarrow>
          (if \<not> isToolName name then Bad ''tool_use.name contains invalid characters''
           else if js_prop block ''input'' \<noteq> None
                   \<and> typeof_opt (js_prop block ''input'') \<noteq> ''object''
             then Bad ''tool_use.input must be an object''
           else Ok)
      | _ \<Rightarrow> Bad ''tool_use.name must be a non-empty string'')"

definition validateToolResultBlock :: "json \<Rightarrow> verdict" where
  "validateToolResultBlock block =
     (if js_prop block ''type'' \<noteq> Some (JStr ''tool_result'')
        then Bad ''Invalid tool_result block type''
      else if \<not> isNonEmptyString (js_prop block ''tool_use_id'') (Some 128)
        then Bad ''tool_result.tool_use_id must be a non-empty string''
      else if js_prop block ''content'' \<noteq> None
              \<and> typeof_opt (js_prop block ''content'') \<noteq> ''string''
              \<and> \<not> isArray (js_prop block ''content'')
        then Bad ''tool_result.content must be string or array''
      else if js_prop block ''is_error'' \<noteq> None
              \<and> typeof_opt (js_prop block ''is_error'') \<noteq> ''boolean''
        then Bad ''tool_result.is_error must be boolean''
      else Ok)"

definition validateThinkingBlock :: "json \<Rightarrow> verdict" where
  "validateThinkingBlock block =
     (if js_prop block ''type'' \<noteq> Some (JStr ''thinking'') then Bad ''Invalid thinking block type''
      else if typeof_opt (js_prop block ''thinking'') \<noteq> ''string''
        then Bad ''thinking.thinking must be a string''
      else case js_prop block ''signature'' of
        None \<Rightarrow> Ok
      | Some (JStr sg) \<Rightarrow>
          (if length sg > MAX_SIGNATURE_LENGTH then Bad ''thinking.signature exceeds maximum length''
           else Ok)
      | Some v \<Rightarrow> Bad ''thinking.signature must be a string'')"

text \<open>
  The \<open>switch\<close> on \<open>block.type\<close>. A \<open>document\<close> block is sent to the image validator and
  a \<open>redacted_thinking\<close> block to the thinking validator, as in the source; a block of
  any other type is accepted.
\<close>

definition validateContentBlock :: "host \<Rightarrow> json \<Rightarrow> verdict" where
  "validateContentBlock h block =
     (if \<not> truthy (Some block) \<or> typeof block \<noteq> ''object''
        then Bad ''Content block must be an object''
      else if js_prop block ''type'' = Some (JStr ''text'') then validateTextBlock block
      else if js_prop block ''type'' = Some (JStr ''image'') then validateImageBlock h block
      else if js_prop block ''type'' = Some (JStr ''document'') then validateImageBlock h block
      else if js_prop block ''type'' = Some (JStr ''tool_use'') then validateToolUseBlock block
      else if js_prop block ''type'' = Some (JStr ''tool_result'')
        then validateToolResultBlock block
      else if js_prop block ''type'' = Some (JStr ''thinking'') then validateThinkingBlock block
      else if js_prop block ''type'' = Some (JStr ''redacted_thinking'')
        then validateThinkingBlock block
      else Ok)"

text \<open>The loop over the blocks of one message, from index \<open>i\<close>; it stops at the first bad block.\<close>

fun validateBlocks :: "host \<Rightarrow> nat \<Rightarrow> json list \<Rightarrow> verdict" where
  "validateBlocks h i [] = Ok"
| "validateBlocks h i (block # rest) =
     (case validateContentBlock h block of
        Bad e \<Rightarrow> Bad (''content['' @ decimal i @ '']: '' @ e)
      | Ok \<Rightarrow> validateBlocks h (i + 1) rest)"

definition validateMessageContent :: "host \<Rightarrow> json \<Rightarrow> verdict" where
  "validateMessageContent h content =
     (case content of
        JStr s \<Rightarrow>
          (if length s > MAX_MESSAGE_LENGTH then Bad ''Message content exceeds maximum length''
           else Ok)
      | JArr blocks \<Rightarrow>
          (if length blocks > MAX_BLOCKS_PER_MESSAGE
             then Bad ''Message has too many blocks (max 1000)''
           else validateBlocks h 0 blocks)
      | _ \<Rightarrow> Bad ''Message content must be string or array'')"

subsection \<open>The request validator\<close>

text \<open>
  \<open>validateMessages\<close> collects error messages in a list, section by section, and returns
  \<open>{valid: false, errors}\<close> when the list is not empty. Three sections read a property of
  a value that may be \<open>null\<close> (an element of \<open>system\<close>, an element of \<open>tools\<close>, and
  \<open>thinking\<close> itself, for which \<open>typeof\<close> is \<open>object\<close>): there the function throws a
  \<open>TypeError\<close> instead of returning. The same happens when the body itself is \<open>null\<close>.
  The messages of the errors are those of V8.
\<close>

datatype js_error = TypeError string

datatype validation =
    Invalid "string list"
  | Valid json

text \<open>One message of the \<open>messages\<close> array, at index \<open>i\<close>.\<close>

definition messageErrors :: "host \<Rightarrow> nat \<Rightarrow> json \<Rightarrow> string list" where
  "messageErrors h i msg =
     (if \<not> truthy (Some msg) \<or> typeof msg \<noteq> ''object''
        then [''messages['' @ decimal i @ '']: must be an object'']
      else
        (if js_prop msg ''role'' = Some (JStr ''user'')
            \<or> js_prop msg ''role'' = Some (JStr ''assistant'')
         then []
         else [''messages['' @ decimal i @ ''].role: must be '' @ [CHR 0x27] @ ''user''
                 @ [CHR 0x27] @ '' or '' @ [CHR 0x27] @ ''assistant'' @ [CHR 0x27]])
        @ (case js_prop msg ''content'' of
             None \<Rightarrow> [''messages['' @ decimal i @ ''].content: is required'']
           | Some content \<Rightarrow>
               (case validateMessageContent h content of
                  Bad e \<Rightarrow> [''messages['' @ decimal i @ ''].'' @ e]
                | Ok \<Rightarrow> [])))"

fun messagesLoop :: "host \<Rightarrow> nat \<Rightarrow> json list \<Rightarrow> string list" where
  "messagesLoop h i [] = []"
| "messagesLoop h i (msg # rest) = messageErrors h i msg @ messagesLoop h (i + 1) rest"

definition messagesSection :: "host \<Rightarrow> json \<Rightarrow> string list" where
  "messagesSection h body =
     (if \<not> truthy (js_prop body ''messages'') then [''messages is required'']
      else case js_prop body ''messages'' of
        Some (JArr msgs) \<Rightarrow>
          (if length msgs = 0 then [''messages cannot be empty'']
           else if length msgs > MAX_MESSAGES then [''messages exceeds limit of 500'']
           else messagesLoop h 0 msgs)
      | _ \<Rightarrow> [''messages must be an array''])"

definition modelSection :: "json \<Rightarrow> string list" where
  "modelSection body =
     (case js_prop body ''model'' of
        None \<Rightarrow> []
      | Some (JStr m) \<Rightarrow>
          (if \<not> isAllowedModel (Some (JStr m))
           then [''model '' @ [CHR 0x27] @ m @ [CHR 0x27] @ '' is not allowed.'']
           else [])
      | Some v \<Rightarrow> [''model must be a string''])"

definition maxTokensSection :: "json \<Rightarrow> string list" where
  "maxTokensSection body =
     (if js_prop body ''max_tokens'' \<noteq> None
         \<and> \<not> isPositiveInt (js_prop body ''max_tokens'') 1 MAX_TOKENS_UPPER
      then [''max_tokens must be integer between 1 and 200000''] else [])"

definition temperatureSection :: "json \<Rightarrow> string list" where
  "temperatureSection body =
     (if js_prop body ''temperature'' \<noteq> None
         \<and> \<not> isNumberInRange (js_prop body ''temperature'') 0 2
      then [''temperature must be number between 0 and 2''] else [])"

definition topPSection :: "json \<Rightarrow> string list" where
  "topPSection body =
     (if js_prop body ''top_p'' \<noteq> None \<and> \<not> isNumberInRange (js_prop body ''top_p'') 0 1
      then [''top_p must be number between 0 and 1''] else [])"

definition topKSection :: "json \<Rightarrow> string list" where
  "topKSection body =
     (if js_prop body ''top_k'' \<noteq> None \<and> \<not> isPositiveInt (js_prop body ''top_k'') 1 500
      then [''top_k must be integer between 1 and 500''] else [])"

definition streamSection :: "json \<Rightarrow> string list" where
  "streamSection body =
     (if js_prop body ''stream'' \<noteq> None \<and> typeof_opt (js_prop body ''stream'') \<noteq> ''boolean''
      then [''stream must be a boolean''] else [])"

text \<open>The loop over the blocks of an array-valued \<open>system\<close>; a \<open>null\<close> element throws.\<close>

fun systemLoop :: "nat \<Rightarrow> json list \<Rightarrow> js_error + string list" where
  "systemLoop i [] = Inr []"
| "systemLoop i (block # rest) =
     (if block = JNull
        then Inl (TypeError ''Cannot read properties of null (reading 'type')'')
      else case systemLoop (i + 1) rest of
        Inl e \<Rightarrow> Inl e
      | Inr errs \<Rightarrow>
          Inr ((if js_prop block ''type'' \<noteq> Some (JStr ''text'')
                   \<or> typeof_opt (js_prop block ''text'') \<noteq> ''string''
                then [''system['' @ decimal i @ '']: must be text block''] else []) @ errs))"

definition systemSection :: "json \<Rightarrow> js_error + string list" where
  "systemSection body =
     (case js_prop body ''system'' of
        None \<Rightarrow> Inr []
      | Some (JStr s) \<Rightarrow>
          Inr (if length s > MAX_SYSTEM_PROMPT_LENGTH
               then [''system prompt exceeds maximum length''] else [])
      | Some (JArr blocks) \<Rightarrow> systemLoop 0 blocks
      | Some v \<Rightarrow> Inr [''system must be string or array''])"

text \<open>The loop over the tool definitions; a \<open>null\<close> element throws.\<close>

fun toolsLoop :: "nat \<Rightarrow> json list \<Rightarrow> js_error + string list" where
  "toolsLoop i [] = Inr []"
| "toolsLoop i (tool # rest) =
     (if tool = JNull
        then Inl (TypeError ''Cannot read properties of null (reading 'name')'')
      else case toolsLoop (i + 1) rest of
        Inl e \<Rightarrow> Inl e
      | Inr errs \<Rightarrow>
          Inr ((case js_prop tool ''name'' of
                  Some (JStr name) \<Rightarrow>
                    (if name = [] then [''tools['' @ decimal i @ ''].name: must be a non-empty string'']
                     else if \<not> isToolName name
                       then [''tools['' @ decimal i @ ''].name: contains invalid characters'']
                     else [])
                | _ \<Rightarrow> [''tools['' @ decimal i @ ''].name: must be a non-empty string'']) @ errs))"

definition toolsSection :: "json \<Rightarrow> js_error + string list" where
  "toolsSection body =
     (case js_prop body ''tools'' of
        None \<Rightarrow> Inr []
      | Some (JArr tools) \<Rightarrow>
          (if length tools > MAX_TOOLS then Inr [''tools exceeds limit of 100'']
           else toolsLoop 0 tools)
      | Some v \<Rightarrow> Inr [''tools must be an array''])"

definition thinkingSection :: "json \<Rightarrow> js_error + string list" where
  "thinkingSection body =
     (case js_prop body ''thinking'' of
        None \<Rightarrow> Inr []
      | Some JNull \<Rightarrow> Inl (TypeError ''Cannot read properties of null (reading 'budget_tokens')'')
      | Some thinking \<Rightarrow>
          (if typeof thinking \<noteq> ''object'' then Inr [''thinking must be an object'']
           else if js_prop thinking ''budget_tokens'' \<noteq> None
                   \<and> \<not> isPositiveInt (js_prop thinking ''budget_tokens'') 1000 100000
             then Inr [''thinking.budget_tokens must be integer between 1000 and 100000'']
           else Inr []))"

text \<open>
  The data returned on success: the body with \<open>stream\<close> defaulted to \<open>false\<close> and
  \<open>max_tokens\<close> capped at the default. On that path \<open>stream\<close> is absent or a boolean and
  \<open>max_tokens\<close> is absent or a number, so \<open>Math.min\<close> never has to convert its argument.
\<close>

fun math_min :: "jsnumber \<Rightarrow> rat \<Rightarrow> jsnumber" where
  "math_min (Finite q) r = Finite (min q r)"
| "math_min PosInfinity r = Finite r"
| "math_min NegInfinity r = NegInfinity"
| "math_min NaN r = NaN"

definition validatedData :: "json \<Rightarrow> json" where
  "validatedData body =
     JObj (setProp ''max_tokens''
             (case js_prop body ''max_tokens'' of
                Some (JNum n) \<Rightarrow> JNum (math_min n MAX_TOKENS_DEFAULT)
              | _ \<Rightarrow> JNum (Finite MAX_TOKENS_DEFAULT))
             (setProp ''stream''
                (case js_prop body ''stream'' of
                   Some (JBool b) \<Rightarrow> JBool b
                 | _ \<Rightarrow> JBool False)
                (own_props body)))"

definition validateMessages :: "host \<Rightarrow> json \<Rightarrow> js_error + validation" where
  "validateMessages h body =
     (if hasPrototypePollution body 0 then Inr (Invalid [''Prototype pollution attempt detected''])
      else if body = JNull
        then Inl (TypeError ''Cannot read properties of null (reading 'messages')'')
      else case systemSection body of
        Inl e \<Rightarrow> Inl e
      | Inr systemErrors \<Rightarrow>
          (case toolsSection body of
             Inl e \<Rightarrow> Inl e
           | Inr toolsErrors \<Rightarrow>
               (case thinkingSection body of
                  Inl e \<Rightarrow> Inl e
                | Inr thinkingErrors \<Rightarrow>
                    (let errors =
                           messagesSection h body @ modelSection body @ maxTokensSection body
                             @ temperatureSection body @ topPSection body @ topKSection body
                             @ streamSection body @ systemErrors @ toolsErrors @ thinkingErrors
                     in if errors \<noteq> [] then Inr (Invalid errors)
                        else Inr (Valid (validatedData body))))))"

section \<open>Error classification in the messages route\<close>

text \<open>
  \<open>parseError\<close> of \<open>routes/messages.js\<close> turns the message of a thrown error into the
  error type, the HTTP status and the text sent to the client. It is a chain of substring
  tests on the message, tried in order; the first test that succeeds decides.
\<close>

record parsed_error =
  errorType :: string
  statusCode :: nat
  errorMessage :: string

text \<open>
  The three regular expressions of the quota branch.
  \<open>/quota will reset after ([\dh\dm\ds]+)/i\<close>: the leftmost place where the literal matches
  without regard to case and at least one character of the class follows; the capture is
  the longest run of class characters.
\<close>

definition isResetChar :: "char \<Rightarrow> bool" where
  "isResetChar c = (c \<in> set ''0123456789hmsHMS'')"

fun resetMatch :: "string \<Rightarrow> string option" where
  "resetMatch [] = None"
| "resetMatch (c # s) =
     (let lit = ''quota will reset after '';
          cap = takeWhile isResetChar (drop (length lit) (c # s))
      in if toLowerCase (take (length lit) (c # s)) = lit \<and> cap \<noteq> [] then Some cap
         else resetMatch s)"

text \<open>
  \<open>/Rate limited on ([^.]+)\./\<close>: after the literal, the longest run of characters other
  than a full stop, which must be non-empty and followed by a full stop.
\<close>

fun rateLimitedOnMatch :: "string \<Rightarrow> string option" where
  "rateLimitedOnMatch [] = None"
| "rateLimitedOnMatch (c # s) =
     (let lit = ''Rate limited on '';
          rest = drop (length lit) (c # s);
          cap = takeWhile (\<lambda>x. x \<noteq> CHR ''.'') rest
      in if startsWith (c # s) lit \<and> cap \<noteq> [] \<and> length cap < length rest then Some cap
         else rateLimitedOnMatch s)"

text \<open>
  \<open>/"model":\s*"([^"]+)"/\<close>: the literal, optional white space, a double quote, a
  non-empty run of characters other than a double quote, and a closing double quote.
\<close>

fun jsonModelMatch :: "string \<Rightarrow> string option" where
  "jsonModelMatch [] = None"
| "jsonModelMatch (c # s) =
     (let lit = [CHR 0x22] @ ''model'' @ [CHR 0x22] @ '':'';
          rest = dropWhile isSpace (drop (length lit) (c # s));
          cap = takeWhile (\<lambda>x. x \<noteq> CHR 0x22) (tl rest)
      in if startsWith (c # s) lit \<and> startsWith rest [CHR 0x22] \<and> cap \<noteq> []
            \<and> length cap < length (tl rest)
         then Some cap
         else jsonModelMatch s)"

definition parseError :: "string \<Rightarrow> parsed_error" where
  "parseError message =
     (if js_includes message ''401'' \<or> js_includes message ''UNAUTHENTICATED'' then
        \<lparr> errorType = ''authentication_error'', statusCode = 401,
          errorMessage =
            ''Authentication failed. Make sure Antigravity is running with a valid token.'' \<rparr>
      else if js_includes message ''429'' \<or> js_includes message ''RESOURCE_EXHAUSTED''
              \<or> js_includes message ''QUOTA_EXHAUSTED'' then
        (let modelMatch =
               (case rateLimitedOnMatch message of Some m \<Rightarrow> Some m
                | None \<Rightarrow> jsonModelMatch message);
             model = (case modelMatch of Some m \<Rightarrow> m | None \<Rightarrow> ''the model'')
         in \<lparr> errorType = ''invalid_request_error'', statusCode = 400,
              errorMessage =
                (case resetMatch message of
                   Some r \<Rightarrow>
                     ''You have exhausted your capacity on '' @ model
                       @ ''. Quota will reset after '' @ r @ ''.''
                 | None \<Rightarrow>
                     ''You have exhausted your capacity on '' @ model
                       @ ''. Please wait for your quota to reset.'') \<rparr>)
      else if js_includes message ''invalid_request_error''
              \<or> js_includes message ''INVALID_ARGUMENT'' then
        \<lparr> errorType = ''invalid_request_error'', statusCode = 400, errorMessage = message \<rparr>
      else if js_includes message ''overloaded_error'' \<or> js_includes message ''503'' then
        \<lparr> errorType = ''overloaded_error'', statusCode = 503,
          errorMessage =
            ''The Antigravity API is currently overloaded. Please try again in a few seconds.'' \<rparr>
      else
        \<lparr> errorType = ''api_error'', statusCode = 500, errorMessage = message \<rparr>)"

text \<open>
  What becomes of a request to \<open>POST /v1/messages\<close> when the handler's \<open>catch\<close> block
  runs: the client gets a JSON error body with a status, or, when the response headers are
  already out, an SSE \<open>error\<close> frame on the open stream (whose status can no longer
  change); or the \<open>catch\<close> block itself throws, with the message of the error, and the
  handler writes nothing to the response.
\<close>

datatype client_error =
    JsonError nat string string
  | SseError string string
  | CatchThrew string

text \<open>
  The route imports the session manager as a namespace
  (\<open>import * as sessionManager from '../session-manager.js'\<close>). These are the names
  \<open>session-manager.js\<close> exports; a name that is not among them is \<open>undefined\<close> on the
  namespace, and calling it throws a \<open>TypeError\<close>.
\<close>

definition sessionManager_exports :: "string list" where
  "sessionManager_exports =
     [''createSession'', ''getSession'', ''getAllSessions'', ''updateSessionActivity'',
      ''markSessionIdle'', ''recordSessionError'', ''updateSessionName'', ''deleteSession'',
      ''cleanupIdleSessions'', ''getSessionStats'', ''detectOrCreateSession'',
      ''startAutoCleanup'', ''stopAutoCleanup'', ''checkIdleSessions'', ''stopIdleCheck'']"

text \<open>
  The \<open>catch\<close> block of the route. For an authentication error it first tries to refresh
  the accounts' tokens, which only replaces the message text; the account manager is not
  part of this development, so the text the refresh produces is the parameter
  \<open>refreshMessage\<close>. Then, before anything is written to the response, it calls
  \<open>sessionManager.getSessionByRequest(req)\<close> to record the error on the session. Only after
  that call does it write the error: \<open>headersSent\<close> is \<open>res.headersSent\<close>; a
  non-streaming request that fails in the dispatcher has sent nothing yet.
\<close>

definition messages_catch :: "string \<Rightarrow> bool \<Rightarrow> string \<Rightarrow> client_error" where
  "messages_catch refreshMessage headersSent message =
     (let p = parseError message;
          msg = (if errorType p = ''authentication_error'' then refreshMessage
                 else errorMessage p)
      in if \<not> List.member sessionManager_exports ''getSessionByRequest'' then
           CatchThrew ''sessionManager.getSessionByRequest is not a function''
         else if headersSent then SseError (errorType p) msg
         else JsonError (statusCode p) (errorType p) msg)"

text \<open>
  The message the streaming dispatcher builds when the whole pool is exhausted for a model
  (\<open>sendMessageStream\<close>); \<open>duration\<close> is the output of \<open>formatDuration\<close> and
  \<open>resetTime\<close> an ISO timestamp.
\<close>

definition rateLimitedMessage :: "string \<Rightarrow> string \<Rightarrow> string \<Rightarrow> string" where
  "rateLimitedMessage model duration resetTime =
     ''RESOURCE_EXHAUSTED: Rate limited on '' @ model @ ''. Quota will reset after ''
       @ duration @ ''. Next available: '' @ resetTime"

section \<open>The Anthropic to OpenAI transcoder\<close>

text \<open>
  \<open>OpenAITranscoder.toOpenAI\<close> of \<open>transcoders/openai.js\<close>. The result is the payload
  as \<open>JSON.stringify\<close> writes it into the upstream request.
\<close>

text \<open>\<open>content.some(c => c.type === 'tool_result')\<close>; a \<open>null\<close> element met on the way throws.\<close>

fun hasToolResult :: "json list \<Rightarrow> js_error + bool" where
  "hasToolResult [] = Inr False"
| "hasToolResult (c # cs) =
     (if c = JNull then Inl (TypeError ''Cannot read properties of null (reading 'type')'')
      else if js_prop c ''type'' = Some (JStr ''tool_result'') then Inr True
      else hasToolResult cs)"

text \<open>\<open>content.filter(c => c.type === 'text' || typeof c === 'string')\<close>.\<close>

fun filterTextParts :: "json list \<Rightarrow> js_error + json list" where
  "filterTextParts [] = Inr []"
| "filterTextParts (c # cs) =
     (if c = JNull then Inl (TypeError ''Cannot read properties of null (reading 'type')'')
      else case filterTextParts cs of
        Inl e \<Rightarrow> Inl e
      | Inr rest \<Rightarrow>
          Inr (if js_prop c ''type'' = Some (JStr ''text'') \<or> typeof c = ''string''
               then c # rest else rest))"

text \<open>\<open>c.text || c\<close>, \<open>c.text || ''\<close> and \<open>c.text\<close> (with \<open>undefined\<close> joined as \<open>null\<close> is).\<close>

definition textOrSelf :: "json \<Rightarrow> json" where
  "textOrSelf c =
     (case js_prop c ''text'' of
        Some t \<Rightarrow> (if truthy (Some t) then t else c)
      | None \<Rightarrow> c)"

definition textOrEmpty :: "json \<Rightarrow> json" where
  "textOrEmpty c =
     (case js_prop c ''text'' of
        Some t \<Rightarrow> (if truthy (Some t) then t else JStr [])
      | None \<Rightarrow> JStr [])"

definition textOf :: "json \<Rightarrow> json" where
  "textOf c = (case js_prop c ''text'' of Some t \<Rightarrow> t | None \<Rightarrow> JNull)"

definition isToolResultBlock :: "json \<Rightarrow> bool" where
  "isToolResultBlock c = (js_prop c ''type'' = Some (JStr ''tool_result''))"

definition isToolUseBlock :: "json \<Rightarrow> bool" where
  "isToolUseBlock c = (js_prop c ''type'' = Some (JStr ''tool_use''))"

definition isTextBlock :: "json \<Rightarrow> bool" where
  "isTextBlock c = (js_prop c ''type'' = Some (JStr ''text''))"

text \<open>The \<open>tool\<close> message made from one \<open>tool_result\<close> block.\<close>

definition toolMessage :: "host \<Rightarrow> json \<Rightarrow> json" where
  "toolMessage h tr =
     object
       [(''role'', Some (JStr ''tool'')),
        (''tool_call_id'', js_prop tr ''tool_use_id''),
        (''content'',
           case js_prop tr ''content'' of
             Some (JStr s) \<Rightarrow> Some (JStr s)
           | v \<Rightarrow> stringify h v)]"

text \<open>The \<open>tool_calls\<close> entry made from one \<open>tool_use\<close> block.\<close>

definition toolCall :: "host \<Rightarrow> json \<Rightarrow> json" where
  "toolCall h tu =
     object
       [(''id'', js_prop tu ''id''),
        (''type'', Some (JStr ''function'')),
        (''function'',
           Some (object
             [(''name'', js_prop tu ''name''),
              (''arguments'', stringify h (js_prop tu ''input''))]))]"

text \<open>
  The body of \<open>messages.forEach\<close>: the messages one input message pushes onto the output.
\<close>

definition convertMessage :: "host \<Rightarrow> json \<Rightarrow> js_error + json list" where
  "convertMessage h msg =
     (if msg = JNull
        then Inl (TypeError ''Cannot read properties of null (reading 'content')'')
      else case js_prop msg ''content'' of
        Some (JArr content) \<Rightarrow>
          (case hasToolResult content of
             Inl e \<Rightarrow> Inl e
           | Inr True \<Rightarrow>
               (case filterTextParts content of
                  Inl e \<Rightarrow> Inl e
                | Inr parts \<Rightarrow>
                    (let textParts = js_join h [] (map textOrSelf parts)
                     in Inr ((if textParts \<noteq> []
                              then [object [(''role'', js_prop msg ''role''),
                                            (''content'', Some (JStr textParts))]]
                              else [])
                             @ map (toolMessage h) (filter isToolResultBlock content))))
           | Inr False \<Rightarrow>
               (if js_prop msg ''role'' = Some (JStr ''assistant'') then
                  (let toolUses = filter isToolUseBlock content;
                       textParts = js_join h [] (map textOf (filter isTextBlock content))
                   in Inr [object
                             ([(''role'', Some (JStr ''assistant'')),
                               (''content'',
                                  Some (if textParts \<noteq> [] then JStr textParts else JNull))]
                              @ (if length toolUses > 0
                                 then [(''tool_calls'', Some (JArr (map (toolCall h) toolUses)))]
                                 else []))])
                else
                  Inr [object [(''role'', js_prop msg ''role''),
                               (''content'',
                                  Some (JStr (js_join h [] (map textOrEmpty content))))]]))
      | c \<Rightarrow>
          Inr [object [(''role'', js_prop msg ''role''),
                       (''content'',
                          Some (case c of
                                  Some v \<Rightarrow> (if truthy (Some v) then v else JStr [])
                                | None \<Rightarrow> JStr []))]])"

fun convertMessages :: "host \<Rightarrow> json list \<Rightarrow> js_error + json list" where
  "convertMessages h [] = Inr []"
| "convertMessages h (msg # rest) =
     (case convertMessage h msg of
        Inl e \<Rightarrow> Inl e
      | Inr out \<Rightarrow>
          (case convertMessages h rest of
             Inl e \<Rightarrow> Inl e
           | Inr outs \<Rightarrow> Inr (out @ outs)))"

text \<open>\<open>tools.map(t => ...)\<close> over an array; a \<open>null\<close> element throws.\<close>

fun mapTools :: "json list \<Rightarrow> js_error + json list" where
  "mapTools [] = Inr []"
| "mapTools (t # ts) =
     (if t = JNull then Inl (TypeError ''Cannot read properties of null (reading 'name')'')
      else case mapTools ts of
        Inl e \<Rightarrow> Inl e
      | Inr rest \<Rightarrow>
          Inr (object
                 [(''type'', Some (JStr ''function'')),
                  (''function'',
                     Some (object
                       [(''name'', js_prop t ''name''),
                        (''description'', js_prop t ''description''),
                        (''parameters'', js_prop t ''input_schema'')]))] # rest))"

text \<open>The value of \<open>payload.tools\<close>, when it is set.\<close>

definition toolsPayload :: "host \<Rightarrow> json option \<Rightarrow> js_error + json option" where
  "toolsPayload h tools =
     (case tools of
        None \<Rightarrow> Inr None
      | Some t \<Rightarrow>
          if truthy (Some t) \<and> num_gt (toNumber h (js_length t)) 0 then
            (case t of
               JArr ts \<Rightarrow>
                 (case mapTools ts of Inl e \<Rightarrow> Inl e | Inr out \<Rightarrow> Inr (Some (JArr out)))
             | _ \<Rightarrow> Inl (TypeError ''tools.map is not a function''))
          else Inr None)"

text \<open>The value of \<open>payload.tool_choice\<close>, when it is set.\<close>

definition toolChoicePayload :: "json option \<Rightarrow> json option" where
  "toolChoicePayload tool_choice =
     (case tool_choice of
        None \<Rightarrow> None
      | Some tc \<Rightarrow>
          if \<not> truthy (Some tc) then None
          else if js_prop tc ''type'' = Some (JStr ''auto'') then Some (JStr ''auto'')
          else if js_prop tc ''type'' = Some (JStr ''any'') then Some (JStr ''required'')
          else if js_prop tc ''type'' = Some (JStr ''tool'') then
            Some (object
                    [(''type'', Some (JStr ''function'')),
                     (''function'', Some (object [(''name'', js_prop tc ''name'')]))])
          else None)"

text \<open>The leading system message, pushed when \<open>system\<close> is truthy.\<close>

definition systemMessage :: "json option \<Rightarrow> json list" where
  "systemMessage system =
     (if truthy system
      then [object [(''role'', Some (JStr ''system'')), (''content'', system)]]
      else [])"

definition toOpenAI :: "host \<Rightarrow> json \<Rightarrow> js_error + json" where
  "toOpenAI h anthropicBody =
     (if anthropicBody = JNull
        then Inl (TypeError ''Cannot destructure property 'messages' of 'anthropicBody' as it is null.'')
      else case js_prop anthropicBody ''messages'' of
        None \<Rightarrow> Inl (TypeError ''Cannot read properties of undefined (reading 'forEach')'')
      | Some JNull \<Rightarrow> Inl (TypeError ''Cannot read properties of null (reading 'forEach')'')
      | Some (JArr messages) \<Rightarrow>
          (case convertMessages h messages of
             Inl e \<Rightarrow> Inl e
           | Inr converted \<Rightarrow>
               (case toolsPayload h (js_prop anthropicBody ''tools'') of
                  Inl e \<Rightarrow> Inl e
                | Inr tools \<Rightarrow>
                    Inr (object
                      [(''model'', js_prop anthropicBody ''model''),
                       (''messages'',
                          Some (JArr (systemMessage (js_prop anthropicBody ''system'')
                                        @ converted))),
                       (''stream'', js_prop anthropicBody ''stream''),
                       (''temperature'', js_prop anthropicBody ''temperature''),
                       (''max_tokens'', js_prop anthropicBody ''max_tokens''),
                       (''stop'', js_prop anthropicBody ''stop_sequences''),
                       (''tools'', tools),
                       (''tool_choice'',
                          toolChoicePayload (js_prop anthropicBody ''tool_choice''))])))
      | Some v \<Rightarrow> Inl (TypeError ''messages.forEach is not a function''))"

text \<open>
  \<open>OpenAITranscoder.fromOpenAIStream(openaiChunk, index)\<close>: one decoded chunk of the
  upstream stream becomes one Anthropic event, or \<open>null\<close> (\<open>None\<close>).
\<close>

definition chunkDelta :: "json \<Rightarrow> json option" where
  "chunkDelta openaiChunk =
     (case js_prop openaiChunk ''choices'' of
        None \<Rightarrow> None
      | Some JNull \<Rightarrow> None
      | Some choices \<Rightarrow>
          (case index0 choices of
             None \<Rightarrow> None
           | Some JNull \<Rightarrow> None
           | Some choice \<Rightarrow> js_prop choice ''delta''))"

text \<open>\<open>toolCall.function?.name || ''\<close>.\<close>

definition toolCallName :: "json \<Rightarrow> json" where
  "toolCallName call =
     (case js_prop call ''function'' of
        None \<Rightarrow> JStr []
      | Some JNull \<Rightarrow> JStr []
      | Some f \<Rightarrow>
          (case js_prop f ''name'' of
             Some n \<Rightarrow> (if truthy (Some n) then n else JStr [])
           | None \<Rightarrow> JStr []))"

text \<open>The event for \<open>toolCall = delta.tool_calls[0]\<close>, once that element is an object.\<close>

definition toolCallEvent :: "json \<Rightarrow> json option" where
  "toolCallEvent call =
     (if truthy (js_prop call ''id'') then
        Some (object
          [(''type'', Some (JStr ''content_block_start'')),
           (''index'', js_prop call ''index''),
           (''content_block'',
              Some (object
                [(''type'', Some (JStr ''tool_use'')),
                 (''id'', js_prop call ''id''),
                 (''name'', Some (toolCallName call)),
                 (''input'', Some (JObj []))]))])
      else
        (case js_prop call ''function'' of
           None \<Rightarrow> None
         | Some f \<Rightarrow>
             (if truthy (Some f) \<and> truthy (js_prop f ''arguments'') then
                Some (object
                  [(''type'', Some (JStr ''content_block_delta'')),
                   (''index'', js_prop call ''index''),
                   (''delta'',
                      Some (object
                        [(''type'', Some (JStr ''input_json_delta'')),
                         (''partial_json'', js_prop f ''arguments'')]))])
              else None)))"

text \<open>The part of the function after the text branch: \<open>delta.tool_calls\<close>.\<close>

definition toolCallsEvent :: "host \<Rightarrow> json \<Rightarrow> js_error + json option" where
  "toolCallsEvent h delta =
     (case js_prop delta ''tool_calls'' of
        None \<Rightarrow> Inr None
      | Some tool_calls \<Rightarrow>
          (if truthy (Some tool_calls) \<and> num_gt (toNumber h (js_length tool_calls)) 0 then
             (case index0 tool_calls of
                None \<Rightarrow> Inl (TypeError ''Cannot read properties of undefined (reading 'index')'')
              | Some JNull \<Rightarrow>
                  Inl (TypeError ''Cannot read properties of null (reading 'index')'')
              | Some call \<Rightarrow> Inr (toolCallEvent call))
           else Inr None))"

definition fromOpenAIStream :: "host \<Rightarrow> json \<Rightarrow> json option \<Rightarrow> js_error + json option" where
  "fromOpenAIStream h openaiChunk index =
     (if openaiChunk = JNull
        then Inl (TypeError ''Cannot read properties of null (reading 'choices')'')
      else
        (case chunkDelta openaiChunk of
           None \<Rightarrow> Inr None
         | Some delta \<Rightarrow>
             (if \<not> truthy (Some delta) then Inr None
              else if truthy (js_prop delta ''content'') then
                Inr (Some (object
                  [(''type'', Some (JStr ''content_block_delta'')),
                   (''index'', index),
                   (''delta'',
                      Some (object [(''type'', Some (JStr ''text_delta'')),
                                    (''text'', js_prop delta ''content'')]))]))
              else toolCallsEvent h delta)))"

section \<open>The local gateway\<close>

text \<open>
  \<open>gateway.js\<close>: a request for a local model is transcoded, posted to the local
  OpenAI-compatible endpoint, and the answer is sent back in Anthropic shape.
\<close>

text \<open>\<open>str.split('\n')\<close>.\<close>

fun split_lines :: "string \<Rightarrow> string list" where
  "split_lines [] = [[]]"
| "split_lines (c # s) =
     (if c = CHR 0x0A then [] # split_lines s
      else (case split_lines s of
              l # ls \<Rightarrow> (c # l) # ls
            | [] \<Rightarrow> [[c]]))"

text \<open>
  What is written to the client for one SSE event: the event name and the data object
  (before \<open>JSON.stringify\<close>). \<open>writeSSE\<close> prints \<open>chunk.type\<close> in a template literal.
\<close>

datatype sse_frame = Frame string json

definition template :: "host \<Rightarrow> json option \<Rightarrow> string" where
  "template h v = (case v of None \<Rightarrow> ''undefined'' | Some x \<Rightarrow> js_String h x)"

definition writeSSE :: "host \<Rightarrow> json \<Rightarrow> sse_frame" where
  "writeSSE h chunk = Frame (template h (js_prop chunk ''type'')) chunk"

text \<open>
  The \<open>data\<close> listener of \<open>streamResponse\<close> for one line of a chunk. A line that does
  not parse, and a chunk on which the transcoder throws, are skipped (empty \<open>catch\<close>). The
  transcoder is called with one argument, so its \<open>index\<close> is \<open>undefined\<close>.
\<close>

definition streamLine :: "host \<Rightarrow> string \<Rightarrow> sse_frame list" where
  "streamLine h line =
     (if startsWith line ''data: '' \<and> line \<noteq> ''data: [DONE]'' then
        (case JSON_parse h (drop 6 line) of
           None \<Rightarrow> []
         | Some json \<Rightarrow>
             (case fromOpenAIStream h json None of
                Inl e \<Rightarrow> []
              | Inr None \<Rightarrow> []
              | Inr (Some anthropicChunk) \<Rightarrow> [writeSSE h anthropicChunk]))
      else [])"

definition streamChunk :: "host \<Rightarrow> string \<Rightarrow> sse_frame list" where
  "streamChunk h str = concat (map (streamLine h) (split_lines str))"

text \<open>
  The body of an upstream response, as \<open>streamResponse\<close> receives it. The gateway calls
  the global \<open>fetch\<close> of Node (it imports no other), whose \<open>response.body\<close> is a web
  \<open>ReadableStream\<close>; a Node \<open>Readable\<close> is the kind of stream that has the method
  \<open>on\<close>. Either way the body arrives as a list of chunks and then ends.
\<close>

datatype body_stream =
    WebReadableStream "string list"
  | NodeReadable "string list"

definition message_stop :: sse_frame where
  "message_stop = Frame ''message_stop'' (JObj [(''type'', JStr ''message_stop'')])"

text \<open>
  \<open>streamResponse\<close>: after setting three headers (nothing is sent yet) it registers its
  listeners with \<open>bodyStream.on\<close>. A web \<open>ReadableStream\<close> has no such method, and the
  call throws. On a Node \<open>Readable\<close> the result is everything written to the client: the
  frames of the \<open>data\<close> listener for each chunk, and the \<open>message_stop\<close> of the \<open>end\<close>
  listener.
\<close>

definition streamResponse :: "host \<Rightarrow> body_stream \<Rightarrow> js_error + sse_frame list" where
  "streamResponse h bodyStream =
     (case bodyStream of
        WebReadableStream chunks \<Rightarrow> Inl (TypeError ''bodyStream.on is not a function'')
      | NodeReadable chunks \<Rightarrow> Inr (concat (map (streamChunk h) chunks) @ [message_stop]))"

text \<open>
  The upstream side. \<open>fetch\<close> either fails (network error, with a message) or gives a
  response: its \<open>ok\<close> flag and status, its body as text, as the chunks of its stream, and
  as decoded JSON (\<open>None\<close> when \<open>response.json()\<close> throws, with the message it throws).
\<close>

record upstream_response =
  ok :: bool
  status :: nat
  body_text :: string
  body_chunks :: "string list"
  body_json :: "string + json"

datatype fetch_outcome = FetchFailed string | FetchResponse upstream_response

text \<open>
  The environment of the gateway: the two environment variables, the clock and the
  upstream (a function of the URL, the bearer key and the posted body).
\<close>

record gateway_env =
  LOCAL_LLM_URL :: "string option"
  LOCAL_LLM_KEY :: "string option"
  now :: nat
  fetch :: "string \<Rightarrow> string option \<Rightarrow> json \<Rightarrow> fetch_outcome"

text \<open>What the client of the gateway receives: a JSON body with a status, or an SSE stream.\<close>

datatype client_output =
    JsonOut nat json
  | StreamOut "sse_frame list"

definition errorBody :: "string \<Rightarrow> string \<Rightarrow> json" where
  "errorBody ty msg =
     JObj [(''type'', JStr ''error''),
           (''error'', JObj [(''type'', JStr ty), (''message'', JStr msg)])]"

definition handleError :: "string \<Rightarrow> client_output" where
  "handleError msg = JsonOut 502 (errorBody ''api_error'' msg)"

definition createAnthropicResponse :: "gateway_env \<Rightarrow> json option \<Rightarrow> json option \<Rightarrow> json" where
  "createAnthropicResponse env content model =
     object
       [(''id'', Some (JStr (''msg_'' @ decimal (now env)))),
        (''type'', Some (JStr ''message'')),
        (''role'', Some (JStr ''assistant'')),
        (''content'',
           Some (JArr [object [(''type'', Some (JStr ''text'')), (''text'', content)]])),
        (''model'', model),
        (''stop_reason'', Some (JStr ''end_turn'')),
        (''usage'',
           Some (JObj [(''input_tokens'', JNum (Finite 0)),
                       (''output_tokens'', JNum (Finite 0))]))]"

text \<open>\<open>data.choices[0].message.content\<close>, with the error each failing step throws.\<close>

definition firstChoiceContent :: "json \<Rightarrow> js_error + json option" where
  "firstChoiceContent data =
     (if data = JNull then Inl (TypeError ''Cannot read properties of null (reading 'choices')'')
      else case js_prop data ''choices'' of
        None \<Rightarrow> Inl (TypeError ''Cannot read properties of undefined (reading '0')'')
      | Some JNull \<Rightarrow> Inl (TypeError ''Cannot read properties of null (reading '0')'')
      | Some choices \<Rightarrow>
          (case index0 choices of
             None \<Rightarrow> Inl (TypeError ''Cannot read properties of undefined (reading 'message')'')
           | Some JNull \<Rightarrow> Inl (TypeError ''Cannot read properties of null (reading 'message')'')
           | Some choice \<Rightarrow>
               (case js_prop choice ''message'' of
                  None \<Rightarrow>
                    Inl (TypeError ''Cannot read properties of undefined (reading 'content')'')
                | Some JNull \<Rightarrow>
                    Inl (TypeError ''Cannot read properties of null (reading 'content')'')
                | Some message \<Rightarrow> Inr (js_prop message ''content''))))"

text \<open>
  \<open>handleLocalRequest\<close> (which only calls \<open>handleOpenAIProxyRequest\<close>). The result is
  the list of requests sent upstream, each with its URL and body, and what the client
  receives. Every error thrown in the \<open>try\<close> block, also the one \<open>streamResponse\<close>
  throws, is answered by \<open>handleError\<close>; the headers \<open>streamResponse\<close> has set before
  it throws stay on that answer and are not part of the model.
\<close>

definition targetUrl :: "gateway_env \<Rightarrow> string" where
  "targetUrl env =
     (case LOCAL_LLM_URL env of
        Some u \<Rightarrow> (if u \<noteq> [] then u else ''http://localhost:1234/v1/chat/completions'')
      | None \<Rightarrow> ''http://localhost:1234/v1/chat/completions'')"

definition bearerKey :: "gateway_env \<Rightarrow> string option" where
  "bearerKey env =
     (case LOCAL_LLM_KEY env of
        Some k \<Rightarrow> (if k \<noteq> [] then Some k else None)
      | None \<Rightarrow> None)"

definition handleLocalRequest ::
  "host \<Rightarrow> gateway_env \<Rightarrow> json \<Rightarrow> (string \<times> json) list \<times> client_output" where
  "handleLocalRequest h env body =
     (case toOpenAI h body of
        Inl (TypeError m) \<Rightarrow> ([], handleError m)
      | Inr openAIBody \<Rightarrow>
          (case fetch env (targetUrl env) (bearerKey env) openAIBody of
             FetchFailed m \<Rightarrow> ([(targetUrl env, openAIBody)], handleError m)
           | FetchResponse response \<Rightarrow>
               ([(targetUrl env, openAIBody)],
                if \<not> ok response then
                  handleError (''Local Agent Error ('' @ decimal (status response) @ ''): ''
                                 @ body_text response)
                else if truthy (js_prop body ''stream'') then
                  (case streamResponse h (WebReadableStream (body_chunks response)) of
                     Inl (TypeError m) \<Rightarrow> handleError m
                   | Inr frames \<Rightarrow> StreamOut frames)
                else
                  (case body_json response of
                     Inl m \<Rightarrow> handleError m
                   | Inr data \<Rightarrow>
                       (case firstChoiceContent data of
                          Inl (TypeError m) \<Rightarrow> handleError m
                        | Inr content \<Rightarrow>
                            JsonOut 200
                              (createAnthropicResponse env content (js_prop body ''model'')))))))"


section \<open>The messages route\<close>

text \<open>
  \<open>router.post('/messages')\<close> of \<open>routes/messages.js\<close>, up to the point where the
  request is handed to the local gateway or to the Cloud-Code dispatcher. The body is
  \<open>req.body\<close> as the router receives it, that is after the model-mapping middleware of
  \<open>server.js\<close> has rewritten a mapped model name.
\<close>

definition DEFAULT_MODEL :: string where
  "DEFAULT_MODEL = ''claude-3-5-sonnet-20241022''"

text \<open>The request object built for the dispatcher from the validated data.\<close>

record request =
  model :: json
  messages :: "json option"
  max_tokens :: json
  stream :: "json option"
  system :: "json option"
  tools :: "json option"
  tool_choice :: "json option"
  thinking :: "json option"
  top_p :: "json option"
  top_k :: "json option"
  temperature :: "json option"

definition buildRequest :: "json \<Rightarrow> request" where
  "buildRequest data =
     \<lparr> model =
         (case js_prop data ''model'' of
            Some m \<Rightarrow> (if truthy (Some m) then m else JStr DEFAULT_MODEL)
          | None \<Rightarrow> JStr DEFAULT_MODEL),
       messages = js_prop data ''messages'',
       max_tokens =
         (case js_prop data ''max_tokens'' of
            Some n \<Rightarrow> (if truthy (Some n) then n else JNum (Finite 4096))
          | None \<Rightarrow> JNum (Finite 4096)),
       stream = js_prop data ''stream'',
       system = js_prop data ''system'',
       tools = js_prop data ''tools'',
       tool_choice = js_prop data ''tool_choice'',
       thinking = js_prop data ''thinking'',
       top_p = js_prop data ''top_p'',
       top_k = js_prop data ''top_k'',
       temperature = js_prop data ''temperature'' \<rparr>"

text \<open>
  How the \<open>try\<close> block of the handler goes on: it throws (with the message of the error),
  it answers the client itself, it hands the request to the local gateway, or it hands the
  built request to the dispatcher.
\<close>

datatype route_step =
    Threw string
  | Answered nat json
  | Gateway "(string \<times> json) list" client_output
  | Dispatch request

text \<open>The input validation step and what follows it.\<close>

definition validationStep :: "host \<Rightarrow> json \<Rightarrow> route_step" where
  "validationStep h body =
     (case validateMessages h body of
        Inl (TypeError m) \<Rightarrow> Threw m
      | Inr (Invalid errors) \<Rightarrow>
          Answered 400
            (object
               [(''type'', Some (JStr ''error'')),
                (''error'',
                   Some (object
                     [(''type'', Some (JStr ''invalid_request_error'')),
                      (''message'',
                         case errors of [] \<Rightarrow> None | e # es \<Rightarrow> Some (JStr e))]))])
      | Inr (Valid data) \<Rightarrow> Dispatch (buildRequest data))"

text \<open>
  The \<open>try\<close> block. The gateway test comes first: \<open>gwModel.startsWith\<close> is the
  case-sensitive string method, and when \<open>gwModel\<close> is truthy but not a string the call
  throws. The optimistic reset of the rate limits, which only touches the account pool, is
  not part of the step.
\<close>

definition messages_try :: "host \<Rightarrow> gateway_env \<Rightarrow> json \<Rightarrow> route_step" where
  "messages_try h env body =
     (if body = JNull then Threw ''Cannot read properties of null (reading 'model')''
      else case js_prop body ''model'' of
        Some (JStr gwModel) \<Rightarrow>
          (if gwModel \<noteq> [] \<and> (startsWith gwModel ''local-'' \<or> startsWith gwModel ''gemma-'')
           then (case handleLocalRequest h env body of (sent, out) \<Rightarrow> Gateway sent out)
           else validationStep h body)
      | gwModel \<Rightarrow>
          (if truthy gwModel then Threw ''gwModel.startsWith is not a function''
           else validationStep h body))"

text \<open>
  The outcome of the handler for the client: rejected with a status and a JSON error body,
  served by the local gateway (with the requests that were sent upstream), passed to the
  Cloud-Code dispatcher, or left without any response. An error thrown in the \<open>try\<close> block
  goes through the \<open>catch\<close> block; nothing has been sent to the client at that point, and
  when the \<open>catch\<close> block throws in its turn the handler's promise is rejected and nothing
  is ever sent.
\<close>

datatype route_result =
    Rejected nat json
  | LocalGateway "(string \<times> json) list" client_output
  | CloudDispatch request
  | NoResponse string

definition messages_route :: "host \<Rightarrow> gateway_env \<Rightarrow> string \<Rightarrow> json \<Rightarrow> route_result" where
  "messages_route h env refreshMessage body =
     (case messages_try h env body of
        Threw m \<Rightarrow>
          (case messages_catch refreshMessage False m of
             JsonError st ty msg \<Rightarrow> Rejected st (errorBody ty msg)
           | SseError ty msg \<Rightarrow> Rejected 200 (errorBody ty msg)
           | CatchThrew e \<Rightarrow> NoResponse e)
      | Answered st b \<Rightarrow> Rejected st b
      | Gateway sent out \<Rightarrow> LocalGateway sent out
      | Dispatch r \<Rightarrow> CloudDispatch r)"

section \<open>The two servers\<close>

text \<open>
  The repository holds two Express applications: the modular \<open>server.js\<close> that
  \<open>index.js\<close> starts, and an older single-file server with all handlers inline. Both are
  modelled as the decision which handler answers a request, from its method and path.
  Express matches a route path without regard to case and with an optional trailing slash;
  \<open>app.use(prefix, ...)\<close> matches the prefix followed by nothing or by a slash.

  The middlewares mounted before the routes are not part of this development: \<open>cors()\<close>,
  which answers a preflight request itself, \<open>express.json\<close>, which answers 400 for a body
  that is not well-formed JSON and 413 for one over the size limit,
  \<open>usageStats.setupMiddleware\<close> and \<open>mountWebUI\<close>. \<open>pre\<close> says what they answer
  themselves, \<open>None\<close> when they all pass the request on. The middlewares that
  set the security headers and log the request always pass it on.
\<close>

datatype answer =
    ErrorAnswer nat string string
  | Redirect nat string
  | HandledBy string
  | Unanswered

definition routePath :: "string \<Rightarrow> string \<Rightarrow> bool" where
  "routePath pattern path =
     (toLowerCase path = pattern \<or> toLowerCase path = pattern @ ''/'')"

definition usePath :: "string \<Rightarrow> string \<Rightarrow> bool" where
  "usePath prefix path =
     (toLowerCase path = prefix \<or> startsWith (toLowerCase path) (prefix @ ''/''))"

text \<open>A route with one parameter, \<open>prefix/:id\<close>: one non-empty segment after the prefix.\<close>

definition paramPath :: "string \<Rightarrow> string \<Rightarrow> bool" where
  "paramPath prefix path =
     (startsWith (toLowerCase path) (prefix @ ''/'')
      \<and> (let seg = drop (length prefix + 1) path;
               seg' = (if seg \<noteq> [] \<and> last seg = CHR ''/'' then butlast seg else seg)
           in seg' \<noteq> [] \<and> CHR ''/'' \<notin> set seg'))"

definition notFound :: "string \<Rightarrow> string \<Rightarrow> answer" where
  "notFound method url =
     ErrorAnswer 404 ''not_found_error'' (''Endpoint '' @ method @ '' '' @ url @ '' not found'')"

definition countTokens :: answer where
  "countTokens =
     ErrorAnswer 501 ''not_implemented''
       ''Token counting is not implemented. Use /v1/messages with max_tokens or configure your client to skip token counting.''"

text \<open>
  The single-file server. \<open>usageStats.setupRoutes\<close>, mounted just before the catch-all,
  is absent as well: \<open>post\<close> stands for it.
\<close>

definition legacy_server ::
  "(string \<Rightarrow> string \<Rightarrow> answer option) \<Rightarrow> (string \<Rightarrow> string \<Rightarrow> answer option)
     \<Rightarrow> string \<Rightarrow> string \<Rightarrow> answer" where
  "legacy_server pre post method path =
     (case pre method path of
        Some a \<Rightarrow> a
      | None \<Rightarrow>
          if method = ''GET'' \<and> routePath ''/health'' path then HandledBy ''health''
          else if method = ''GET'' \<and> routePath ''/account-limits'' path
            then HandledBy ''account-limits''
          else if method = ''POST'' \<and> routePath ''/refresh-token'' path
            then HandledBy ''refresh-token''
          else if method = ''GET'' \<and> routePath ''/v1/models'' path then HandledBy ''models''
          else if method = ''POST'' \<and> routePath ''/v1/messages/count_tokens'' path
            then countTokens
          else if method = ''POST'' \<and> routePath ''/v1/messages'' path then HandledBy ''messages''
          else if method = ''GET'' \<and> routePath ''/cli/detect'' path then HandledBy ''cli/detect''
          else if method = ''POST'' \<and> routePath ''/cli/launch'' path then HandledBy ''cli/launch''
          else if method = ''GET'' \<and> routePath ''/cli/commands'' path
            then HandledBy ''cli/commands''
          else if method = ''GET'' \<and> routePath ''/sessions'' path then HandledBy ''sessions''
          else if List.member [''GET'', ''PATCH'', ''DELETE''] method \<and> paramPath ''/sessions'' path
            then HandledBy ''sessions/:id''
          else (case post method path of
                  Some a \<Rightarrow> a
                | None \<Rightarrow> notFound method path))"

text \<open>
  The modular server. \<open>initialized\<close> says whether \<open>ensureInitialized\<close> gets the account
  pool ready; when it does not, the middleware throws and the application sends no answer
  of its own. The routers under \<open>/v1\<close> are those of \<open>routes/messages.js\<close>
  (\<open>POST /messages\<close>) and \<open>routes/models.js\<close> (\<open>GET /models\<close>).
\<close>

definition modular_server ::
  "(string \<Rightarrow> string \<Rightarrow> answer option) \<Rightarrow> bool \<Rightarrow> string \<Rightarrow> string \<Rightarrow> answer" where
  "modular_server pre initialized method path =
     (case pre method path of
        Some a \<Rightarrow> a
      | None \<Rightarrow>
          if method = ''GET'' \<and> routePath ''/health'' path then HandledBy ''health''
          else if usePath ''/v1'' path \<and> \<not> initialized then Unanswered
          else if usePath ''/v1'' path \<and> method = ''POST'' \<and> routePath ''/v1/messages'' path
            then HandledBy ''messages''
          else if usePath ''/v1'' path \<and> method = ''GET'' \<and> routePath ''/v1/models'' path
            then HandledBy ''models''
          else if usePath ''/api/launcher'' path \<and> \<not> initialized then Unanswered
          else if method = ''POST'' \<and> routePath ''/api/launcher/launch'' path
            then HandledBy ''launcher/launch''
          else if method = ''GET'' \<and> routePath ''/api/launcher/validate-cli'' path
            then HandledBy ''launcher/validate-cli''
          else if method = ''GET'' \<and> routePath ''/api/launcher/setup-instructions'' path
            then HandledBy ''launcher/setup-instructions''
          else if usePath ''/api/sessions'' path \<and> \<not> initialized then Unanswered
          else if method = ''GET'' \<and> routePath ''/api/sessions'' path then HandledBy ''sessions''
          else if List.member [''GET'', ''PATCH'', ''DELETE''] method
                  \<and> paramPath ''/api/sessions'' path
            then HandledBy ''sessions/:id''
          else if method = ''GET'' \<and> routePath ''/api/stats/history'' path
            then HandledBy ''stats/history''
          else if usePath ''/account'' path \<and> \<not> initialized then Unanswered
          else if method = ''GET'' \<and> routePath ''/account/account-limits'' path
            then HandledBy ''account-limits''
          else if method = ''POST'' \<and> routePath ''/account/refresh-token'' path
            then HandledBy ''refresh-token''
          else if method = ''GET'' \<and> routePath ''/account-limits'' path
            then Redirect 301 ''/account/account-limits''
          else if method = ''POST'' \<and> routePath ''/refresh-token'' path
            then Redirect 307 ''/account/refresh-token''
          else if method = ''GET'' \<and> routePath ''/sessions'' path
            then Redirect 301 ''/api/sessions''
          else if method = ''POST'' \<and> routePath ''/api/launch'' path
            then Redirect 307 ''/api/launcher/launch''
          else notFound method path)"


section \<open>The streaming dispatcher\<close>

text \<open>
  \<open>sendMessageStream\<close> of the Cloud-Code streaming handler. Two parts of its retry loop
  are modelled: the selection of an account at the head of each attempt, and the streaming
  of a response with the retries for an empty response.
\<close>

text \<open>
  Modelled from the spec: \<open>MAX_WAIT_BEFORE_ERROR_MS\<close> is imported from \<open>constants.js\<close>,
  which is missing here; the specification gives the value 120000 (two minutes).
\<close>

definition MAX_WAIT_BEFORE_ERROR_MS :: int where
  "MAX_WAIT_BEFORE_ERROR_MS = 120000"

text \<open>
  Modelled from the spec: \<open>MAX_EMPTY_RESPONSE_RETRIES\<close> is imported from \<open>constants.js\<close>,
  which is missing here; the specification gives the value 3.
\<close>

definition MAX_EMPTY_RESPONSE_RETRIES :: nat where
  "MAX_EMPTY_RESPONSE_RETRIES = 3"

text \<open>What the dispatcher does besides yielding events.\<close>

datatype effect =
    Fetch string json
  | Sleep int
  | ClearExpiredLimits
  | ClearTokenCache
  | ClearProjectCache

subsection \<open>Selecting an account\<close>

text \<open>
  The account manager is not part of this development. It is a parameter: a state \<open>'s\<close>
  (the pool and the clock) and the operations the dispatcher calls on it, each returning its
  answer and the state it leaves. \<open>sleep\<close> lets the given number of milliseconds pass.
  \<open>formatDuration\<close>, the ISO rendering of the time \<open>now + wait\<close> and
  \<open>getFallbackModel\<close> are helpers imported from other absent modules.
\<close>

record ('s, 'a) account_manager =
  pickStickyAccount :: "string \<Rightarrow> 's \<Rightarrow> ('a option \<times> int) \<times> 's"
  getCurrentStickyAccount :: "string \<Rightarrow> 's \<Rightarrow> 'a option \<times> 's"
  pickNext :: "string \<Rightarrow> 's \<Rightarrow> 'a option \<times> 's"
  clearExpiredLimits :: "'s \<Rightarrow> 's"
  isAllRateLimited :: "string \<Rightarrow> 's \<Rightarrow> bool"
  getMinWaitTimeMs :: "string \<Rightarrow> 's \<Rightarrow> int"
  sleep :: "int \<Rightarrow> 's \<Rightarrow> 's"
  formatDuration :: "int \<Rightarrow> string"
  resetTimeISO :: "'s \<Rightarrow> int \<Rightarrow> string"
  getFallbackModel :: "string \<Rightarrow> string option"

text \<open>
  How the selection ends: an account to use, an error thrown, or a recursive dispatch with
  the fallback model.
\<close>

datatype 'a selection =
    Selected 'a
  | Failure string
  | Fallback string

text \<open>
  The first step of an attempt: ask for the sticky account; when there is none and a wait
  is offered, sleep for it, clear the expired limits and ask again.
\<close>

definition stickyPhase ::
  "('s, 'a) account_manager \<Rightarrow> string \<Rightarrow> 's \<Rightarrow> 'a option \<times> effect list \<times> 's" where
  "stickyPhase am m st =
     (case pickStickyAccount am m st of
        ((stickyAccount, waitMs), st1) \<Rightarrow>
          (if stickyAccount = None \<and> waitMs > 0 then
             (case getCurrentStickyAccount am m (clearExpiredLimits am (sleep am waitMs st1)) of
                (account, st2) \<Rightarrow> (account, [Sleep waitMs, ClearExpiredLimits], st2))
           else (stickyAccount, [], st1)))"

text \<open>The last step: with no account left, fall back to another model or give up.\<close>

definition noAccountStep ::
  "('s, 'a) account_manager \<Rightarrow> bool \<Rightarrow> string \<Rightarrow> 'a option \<Rightarrow> 'a selection" where
  "noAccountStep am fallbackEnabled m account =
     (case account of
        Some a \<Rightarrow> Selected a
      | None \<Rightarrow>
          (if fallbackEnabled then
             (case getFallbackModel am m of
                Some fallbackModel \<Rightarrow> Fallback fallbackModel
              | None \<Rightarrow> Failure ''No accounts available'')
           else Failure ''No accounts available''))"

text \<open>
  The step in between, entered with no account: when the whole pool is rate-limited for
  the model, either fail at once or wait for the earliest reset and pick again.
\<close>

definition exhaustedPhase ::
  "('s, 'a) account_manager \<Rightarrow> bool \<Rightarrow> string \<Rightarrow> 's \<Rightarrow> 'a selection \<times> effect list \<times> 's" where
  "exhaustedPhase am fallbackEnabled m st =
     (if isAllRateLimited am m st then
        (let allWaitMs = getMinWaitTimeMs am m st
         in if allWaitMs > MAX_WAIT_BEFORE_ERROR_MS then
              (Failure (rateLimitedMessage m (formatDuration am allWaitMs)
                          (resetTimeISO am st allWaitMs)),
               [], st)
            else
              (case pickNext am m (clearExpiredLimits am (sleep am allWaitMs st)) of
                 (account, st') \<Rightarrow>
                   (noAccountStep am fallbackEnabled m account,
                    [Sleep allWaitMs, ClearExpiredLimits], st')))
      else (noAccountStep am fallbackEnabled m None, [], st))"

definition selectAccount ::
  "('s, 'a) account_manager \<Rightarrow> bool \<Rightarrow> string \<Rightarrow> 's \<Rightarrow> 'a selection \<times> effect list \<times> 's" where
  "selectAccount am fallbackEnabled m st =
     (case stickyPhase am m st of
        (Some a, effs, st') \<Rightarrow> (Selected a, effs, st')
      | (None, effs, st') \<Rightarrow>
          (case exhaustedPhase am fallbackEnabled m st' of
             (sel, effs', st'') \<Rightarrow> (sel, effs @ effs', st'')))"

subsection \<open>Streaming with retries for an empty response\<close>

text \<open>
  \<open>streamSSEResponse\<close> and the error classes are not part of this development. A call
  \<open>yield* streamSSEResponse(response, model)\<close> is described by what it does: the events it
  yields, and how it ends (it returns, it throws an error for which
  \<open>isEmptyResponseError\<close> holds, or it throws another error).
\<close>

datatype stream_end = Completed | EmptyResponse | Failed string

record cloud_response =
  resp_ok :: bool
  resp_status :: nat
  resp_text :: string
  yielded :: "json list"
  ending :: stream_end

datatype refetch = RefetchFailed string | Refetched cloud_response

datatype outcome = Return | Throw string | LoopExit


text \<open>
  The \<open>while (emptyRetries <= MAX_EMPTY_RESPONSE_RETRIES)\<close> loop. \<open>url\<close> and \<open>payload\<close>
  are fixed before the loop; \<open>refetch k\<close> is what the \<open>k\<close>-th repeated \<open>fetch\<close> gives;
  \<open>fallback\<close> is the event list of \<open>emitEmptyResponseFallback\<close>. The result is the events
  yielded to the client, the effects in order, and how the loop is left.
\<close>

function streamWithRetries ::
  "string \<Rightarrow> json \<Rightarrow> json list \<Rightarrow> (nat \<Rightarrow> refetch) \<Rightarrow> nat \<Rightarrow> cloud_response
     \<Rightarrow> json list \<times> effect list \<times> outcome" where
  "streamWithRetries url payload fallback refetch emptyRetries currentResponse =
     (if emptyRetries \<le> MAX_EMPTY_RESPONSE_RETRIES then
        (case ending currentResponse of
           Completed \<Rightarrow> (yielded currentResponse, [], Return)
         | Failed m \<Rightarrow> (yielded currentResponse, [], Throw m)
         | EmptyResponse \<Rightarrow>
             (if emptyRetries < MAX_EMPTY_RESPONSE_RETRIES then
                (case refetch (emptyRetries + 1) of
                   RefetchFailed m \<Rightarrow> (yielded currentResponse, [Fetch url payload], Throw m)
                 | Refetched r \<Rightarrow>
                     (if \<not> resp_ok r then
                        (if resp_status r = 429 then
                           (yielded currentResponse, [Fetch url payload],
                            Throw (''Rate limited during retry: '' @ resp_text r))
                         else if resp_status r = 401 then
                           (yielded currentResponse,
                            [Fetch url payload, ClearTokenCache, ClearProjectCache],
                            Throw (''Auth error during retry: '' @ resp_text r))
                         else if resp_status r \<ge> 500 then
                           (case streamWithRetries url payload fallback refetch
                                   (emptyRetries + 1) r of
                              (evs, effs, out) \<Rightarrow>
                                (yielded currentResponse @ evs,
                                 [Fetch url payload, Sleep 1000] @ effs, out))
                         else
                           (yielded currentResponse, [Fetch url payload],
                            Throw (''Empty response retry failed: '' @ decimal (resp_status r)
                                     @ '' - '' @ resp_text r)))
                      else
                        (case streamWithRetries url payload fallback refetch
                                (emptyRetries + 1) r of
                           (evs, effs, out) \<Rightarrow>
                             (yielded currentResponse @ evs, Fetch url payload # effs, out))))
              else (yielded currentResponse @ fallback, [], Return)))
      else ([], [], LoopExit))"
  by pat_completeness auto
termination
  by (relation "measure (\<lambda>(url, payload, fallback, refetch, emptyRetries, currentResponse).
        Suc MAX_EMPTY_RESPONSE_RETRIES - emptyRetries)") auto

declare streamWithRetries.simps [simp del]


section \<open>Concrete inputs\<close>

text \<open>The middleware that passes every request on.\<close>

definition passOn :: "string \<Rightarrow> string \<Rightarrow> answer option" where
  "passOn method path = None"

definition hi_messages :: json where
  "hi_messages = JArr [JObj [(''role'', JStr ''user''), (''content'', JStr ''hi'')]]"

text \<open>A well-formed request for the model \<open>m\<close>.\<close>

definition body_with_model :: "string \<Rightarrow> json" where
  "body_with_model m = JObj [(''model'', JStr m), (''messages'', hi_messages)]"

text \<open>A request for a local model that carries the key \<open>__proto__\<close>.\<close>

definition polluted_local_body :: json where
  "polluted_local_body =
     JObj [(''model'', JStr ''local-llama''), (''messages'', hi_messages),
           (''__proto__'', JObj [(''polluted'', JBool True)])]"

text \<open>A request without the \<open>model\<close> field.\<close>

definition body_without_model :: json where
  "body_without_model = JObj [(''messages'', hi_messages), (''max_tokens'', JNum (Finite 10))]"

text \<open>A host and a gateway environment whose upstream refuses the connection.\<close>

definition demo_host :: host where
  "demo_host =
     \<lparr> isValidURL = (\<lambda>u. True), numberToString = (\<lambda>n. ''0''), stringToNumber = (\<lambda>s. NaN),
       JSON_parse = (\<lambda>s. None), JSON_stringify = (\<lambda>v. ''null'') \<rparr>"

definition demo_env :: gateway_env where
  "demo_env =
     \<lparr> LOCAL_LLM_URL = None, LOCAL_LLM_KEY = None, now = 0,
       fetch = (\<lambda>url key body. FetchFailed ''fetch failed'') \<rparr>"

text \<open>
  An upstream stream of one text chunk \<open>ok\<close>: the line of the OpenAI stream, the value
  \<open>JSON.parse\<close> gives for it, and a host that parses exactly this text.
\<close>

definition ok_text :: string where
  \<open>ok_text = ''{"choices":[{"delta":{"content":"ok"}}]}''\<close>

definition ok_json :: json where
  "ok_json = JObj [(''choices'', JArr [JObj [(''delta'', JObj [(''content'', JStr ''ok'')])]])]"

definition ok_host :: host where
  "ok_host = demo_host \<lparr> JSON_parse := (\<lambda>s. if s = ok_text then Some ok_json else None) \<rparr>"

definition ok_chunk :: string where
  "ok_chunk = ''data: '' @ ok_text @ [CHR 0x0A, CHR 0x0A]"

text \<open>
  A streamed request for a local model, and a gateway environment whose upstream answers
  it with status 200 and a stream of that one chunk.
\<close>

definition streamed_local_body :: json where
  "streamed_local_body =
     JObj [(''model'', JStr ''local-llama''), (''messages'', hi_messages),
           (''stream'', JBool True)]"

definition ok_stream_env :: gateway_env where
  "ok_stream_env =
     \<lparr> LOCAL_LLM_URL = None, LOCAL_LLM_KEY = None, now = 0,
       fetch = (\<lambda>url key body.
         FetchResponse
           \<lparr> ok = True, status = 200, body_text = ok_chunk, body_chunks = [ok_chunk],
             body_json = Inl ''Unexpected token d in JSON at position 0'' \<rparr>) \<rparr>"

text \<open>
  An account pool over a state that is just the clock, in milliseconds: its one account is
  rate-limited until the time \<open>t\<close> and free from then on. The sticky selection offers no
  wait. \<open>duration\<close> and \<open>resetTime\<close> are the texts the two formatting helpers give.
\<close>

definition pool_resetting_at :: "int \<Rightarrow> string \<Rightarrow> string \<Rightarrow> (int, string) account_manager" where
  "pool_resetting_at t duration resetTime =
     \<lparr> pickStickyAccount =
         (\<lambda>m st. ((if t \<le> st then Some ''a@example.com'' else None, 0), st)),
       getCurrentStickyAccount = (\<lambda>m st. (if t \<le> st then Some ''a@example.com'' else None, st)),
       pickNext = (\<lambda>m st. (if t \<le> st then Some ''a@example.com'' else None, st)),
       clearExpiredLimits = (\<lambda>st. st),
       isAllRateLimited = (\<lambda>m st. st < t),
       getMinWaitTimeMs = (\<lambda>m st. t - st),
       sleep = (\<lambda>ms st. st + ms),
       formatDuration = (\<lambda>ms. duration),
       resetTimeISO = (\<lambda>st ms. resetTime),
       getFallbackModel = (\<lambda>m. None) \<rparr>"

text \<open>
  Seen at time 0: a pool whose earliest reset is 200 s away, and one whose earliest reset
  is 30 s away.
\<close>

definition exhausted_pool :: "(int, string) account_manager" where
  "exhausted_pool = pool_resetting_at 200000 ''3m20s'' ''2026-02-06T10:03:20.000Z''"

definition short_wait_pool :: "(int, string) account_manager" where
  "short_wait_pool = pool_resetting_at 30000 ''30s'' ''2026-02-06T10:00:30.000Z''"



text \<open>
  Two messages with block content: a user message whose tool result comes before its text,
  and an assistant message with a text block and a tool use.
\<close>

definition tool_result_then_text :: json where
  "tool_result_then_text =
     JObj [(''role'', JStr ''user''),
           (''content'',
              JArr [JObj [(''type'', JStr ''tool_result''), (''tool_use_id'', JStr ''t1''),
                          (''content'', JStr ''42'')],
                    JObj [(''type'', JStr ''text''), (''text'', JStr ''thanks'')]])]"

text \<open>A request whose only message is that user message.\<close>

definition tool_result_request :: json where
  "tool_result_request = JObj [(''messages'', JArr [tool_result_then_text])]"

text \<open>
  A request with a system prompt, a question, an assistant turn that calls a tool, and that
  user message; and a host whose \<open>JSON.stringify\<close> prints the tool's input.
\<close>

definition paris_text :: string where
  \<open>paris_text = ''{"city":"Paris"}''\<close>

definition weather_host :: host where
  "weather_host =
     demo_host \<lparr> JSON_stringify :=
       (\<lambda>v. if v = JObj [(''city'', JStr ''Paris'')] then paris_text else ''null'') \<rparr>"

definition weather_messages :: "json list" where
  "weather_messages =
     [JObj [(''role'', JStr ''user''), (''content'', JStr ''Weather in Paris?'')],
      JObj [(''role'', JStr ''assistant''),
            (''content'',
               JArr [JObj [(''type'', JStr ''text''), (''text'', JStr ''Looking.'')],
                     JObj [(''type'', JStr ''tool_use''), (''id'', JStr ''t1''),
                           (''name'', JStr ''get_weather''),
                           (''input'', JObj [(''city'', JStr ''Paris'')])]])],
      tool_result_then_text]"

definition weather_request :: json where
  "weather_request =
     JObj [(''model'', JStr ''local-llama''), (''system'', JStr ''Be brief.''),
           (''messages'', JArr weather_messages)]"

text \<open>
  Three request bodies: one that breaks two rules at once, one whose \<open>thinking\<close> is
  \<open>null\<close>, and one whose only fault is \<open>max_tokens = 0\<close>.
\<close>

definition two_errors_body :: json where
  "two_errors_body = JObj [(''messages'', JArr []), (''max_tokens'', JNum (Finite 0))]"

definition null_thinking_body :: json where
  "null_thinking_body =
     JObj [(''messages'', hi_messages), (''max_tokens'', JNum (Finite 0)), (''thinking'', JNull)]"

definition zero_max_tokens_body :: json where
  "zero_max_tokens_body = JObj [(''messages'', hi_messages), (''max_tokens'', JNum (Finite 0))]"

section \<open>Notions used in the statements\<close>

text \<open>The requests the handler has sent to the local upstream.\<close>

fun sent_upstream :: "route_result \<Rightarrow> (string \<times> json) list" where
  "sent_upstream (LocalGateway sent out) = sent"
| "sent_upstream r = []"

text \<open>
  A body contains a dangerous key when one of the three names is a key of an object
  anywhere in it.
\<close>

fun contains_dangerous_key :: "json \<Rightarrow> bool"
  and items_contain_dangerous_key :: "json list \<Rightarrow> bool"
  and props_contain_dangerous_key :: "(string \<times> json) list \<Rightarrow> bool"
where
  "contains_dangerous_key (JArr xs) = items_contain_dangerous_key xs"
| "contains_dangerous_key (JObj kvs) = props_contain_dangerous_key kvs"
| "contains_dangerous_key JNull = False"
| "contains_dangerous_key (JBool b) = False"
| "contains_dangerous_key (JNum n) = False"
| "contains_dangerous_key (JStr s) = False"
| "items_contain_dangerous_key [] = False"
| "items_contain_dangerous_key (x # xs) =
     (contains_dangerous_key x \<or> items_contain_dangerous_key xs)"
| "props_contain_dangerous_key [] = False"
| "props_contain_dangerous_key ((k, v) # rest) =
     (List.member [''__proto__'', ''constructor'', ''prototype''] k \<or> contains_dangerous_key v
      \<or> props_contain_dangerous_key rest)"

text \<open>
  The nesting depth of a value: the largest number of arrays and objects that enclose a
  value inside it. A primitive and an empty container have depth 0; the body
  \<open>{"a": 1}\<close> has depth 1.
\<close>

fun nesting_depth :: "json \<Rightarrow> nat"
  and items_depth :: "json list \<Rightarrow> nat"
  and props_depth :: "(string \<times> json) list \<Rightarrow> nat"
where
  "nesting_depth (JArr xs) = items_depth xs"
| "nesting_depth (JObj kvs) = props_depth kvs"
| "nesting_depth JNull = 0"
| "nesting_depth (JBool b) = 0"
| "nesting_depth (JNum n) = 0"
| "nesting_depth (JStr s) = 0"
| "items_depth [] = 0"
| "items_depth (x # xs) = max (Suc (nesting_depth x)) (items_depth xs)"
| "props_depth [] = 0"
| "props_depth ((k, v) # rest) = max (Suc (nesting_depth v)) (props_depth rest)"

text \<open>A frame is a \<open>message_start\<close> when its event name or the type of its data says so.\<close>

fun is_message_start :: "sse_frame \<Rightarrow> bool" where
  "is_message_start (Frame ev data) =
     (ev = ''message_start'' \<or> js_prop data ''type'' = Some (JStr ''message_start''))"

text \<open>
  The conditions of the validation contract, read off the body. A block is bad when it is a
  text block of more than 2000000 characters, a base64 image of more than 10000000
  characters or with a non-empty media type outside the four allowed ones, or a tool use
  whose name is longer than 256 characters or does not match \<open>[A-Za-z0-9_-]+\<close>.
\<close>

definition text_too_long :: "json \<Rightarrow> bool" where
  "text_too_long b =
     (js_prop b ''type'' = Some (JStr ''text'')
      \<and> (case js_prop b ''text'' of Some (JStr t) \<Rightarrow> 2000000 < length t | _ \<Rightarrow> False))"

definition image_too_big :: "json \<Rightarrow> bool" where
  "image_too_big b =
     (js_prop b ''type'' = Some (JStr ''image'')
      \<and> (case js_prop b ''source'' of
            Some src \<Rightarrow>
              js_prop src ''type'' = Some (JStr ''base64'')
              \<and> (case js_prop src ''data'' of Some (JStr d) \<Rightarrow> 10000000 < length d | _ \<Rightarrow> False)
          | None \<Rightarrow> False))"

definition image_bad_media_type :: "json \<Rightarrow> bool" where
  "image_bad_media_type b =
     (js_prop b ''type'' = Some (JStr ''image'')
      \<and> (case js_prop b ''source'' of
            Some src \<Rightarrow>
              js_prop src ''type'' = Some (JStr ''base64'')
              \<and> (case js_prop src ''media_type'' of
                    Some (JStr mt) \<Rightarrow>
                      mt \<noteq> []
                      \<and> \<not> List.member [''image/jpeg'', ''image/png'', ''image/gif'', ''image/webp''] mt
                  | _ \<Rightarrow> False)
          | None \<Rightarrow> False))"

text \<open>
  A name matches \<open>[A-Za-z0-9_-]+\<close> when it is not empty and each of its characters is a
  letter, a digit, an underscore or a hyphen, by its code.
\<close>

definition name_character :: "char \<Rightarrow> bool" where
  "name_character c =
     (let n = (of_char c :: nat)
      in (65 \<le> n \<and> n \<le> 90) \<or> (97 \<le> n \<and> n \<le> 122) \<or> (48 \<le> n \<and> n \<le> 57)
         \<or> n = 95 \<or> n = 45)"

definition matches_name_pattern :: "string \<Rightarrow> bool" where
  "matches_name_pattern n = (n \<noteq> [] \<and> list_all name_character n)"

definition tool_name_bad :: "json \<Rightarrow> bool" where
  "tool_name_bad b =
     (js_prop b ''type'' = Some (JStr ''tool_use'')
      \<and> (case js_prop b ''name'' of
            Some (JStr n) \<Rightarrow> 256 < length n \<or> \<not> matches_name_pattern n
          | _ \<Rightarrow> False))"

definition bad_block :: "json \<Rightarrow> bool" where
  "bad_block b = (text_too_long b \<or> image_too_big b \<or> image_bad_media_type b \<or> tool_name_bad b)"

definition message_has_bad_block :: "json \<Rightarrow> bool" where
  "message_has_bad_block msg =
     (case js_prop msg ''content'' of Some (JArr blocks) \<Rightarrow> list_ex bad_block blocks | _ \<Rightarrow> False)"

definition body_has_bad_block :: "json \<Rightarrow> bool" where
  "body_has_bad_block body =
     (case js_prop body ''messages'' of
        Some (JArr msgs) \<Rightarrow> list_ex message_has_bad_block msgs
      | _ \<Rightarrow> False)"

definition messages_missing_empty_or_long :: "json \<Rightarrow> bool" where
  "messages_missing_empty_or_long body =
     (case js_prop body ''messages'' of
        None \<Rightarrow> True
      | Some (JArr msgs) \<Rightarrow> msgs = [] \<or> 500 < length msgs
      | Some v \<Rightarrow> False)"

definition too_many_tools :: "json \<Rightarrow> bool" where
  "too_many_tools body =
     (case js_prop body ''tools'' of Some (JArr ts) \<Rightarrow> 100 < length ts | _ \<Rightarrow> False)"

text \<open>
  The range conditions, in the words of the contract: a value is an integer in a range
  when it is a finite number without fractional part between the bounds, and a number in a
  range when it is a finite number between the bounds.
\<close>

definition integer_between :: "json option \<Rightarrow> int \<Rightarrow> int \<Rightarrow> bool" where
  "integer_between v lo hi =
     (case v of
        Some (JNum (Finite q)) \<Rightarrow> q \<in> \<int> \<and> of_int lo \<le> q \<and> q \<le> of_int hi
      | _ \<Rightarrow> False)"

definition number_between :: "json option \<Rightarrow> rat \<Rightarrow> rat \<Rightarrow> bool" where
  "number_between v lo hi =
     (case v of
        Some (JNum (Finite q)) \<Rightarrow> lo \<le> q \<and> q \<le> hi
      | _ \<Rightarrow> False)"

definition bad_budget_tokens :: "json \<Rightarrow> bool" where
  "bad_budget_tokens body =
     (case js_prop body ''thinking'' of
        Some t \<Rightarrow>
          js_prop t ''budget_tokens'' \<noteq> None
          \<and> \<not> integer_between (js_prop t ''budget_tokens'') 1000 100000
      | None \<Rightarrow> False)"

text \<open>
  A model matches an allowed prefix when it is a string whose lower-cased form begins,
  character by character, with one of the eight prefixes.
\<close>

fun begins_with :: "string \<Rightarrow> string \<Rightarrow> bool" where
  "begins_with [] s = True"
| "begins_with (p # ps) [] = False"
| "begins_with (p # ps) (c # s) = (p = c \<and> begins_with ps s)"

definition matches_allowed_prefix :: "json option \<Rightarrow> bool" where
  "matches_allowed_prefix v =
     (case v of
        Some (JStr m) \<Rightarrow>
          list_ex (\<lambda>p. begins_with p (toLowerCase m))
            [''claude-'', ''gemini-'', ''gpt-os-'', ''gpt-4-'', ''local-'', ''lmstudio-'',
             ''deepseek-'', ''qwen-'']
      | _ \<Rightarrow> False)"

text \<open>A body is rejectable when one of the conditions of the contract holds for it.\<close>

definition rejectable :: "json \<Rightarrow> bool" where
  "rejectable body =
     (contains_dangerous_key body
      \<or> 50 < nesting_depth body
      \<or> messages_missing_empty_or_long body
      \<or> body_has_bad_block body
      \<or> (js_prop body ''max_tokens'' \<noteq> None
          \<and> \<not> integer_between (js_prop body ''max_tokens'') 1 200000)
      \<or> (js_prop body ''temperature'' \<noteq> None
          \<and> \<not> number_between (js_prop body ''temperature'') 0 2)
      \<or> (js_prop body ''top_p'' \<noteq> None \<and> \<not> number_between (js_prop body ''top_p'') 0 1)
      \<or> (js_prop body ''top_k'' \<noteq> None \<and> \<not> integer_between (js_prop body ''top_k'') 1 500)
      \<or> too_many_tools body
      \<or> bad_budget_tokens body
      \<or> (js_prop body ''model'' \<noteq> None \<and> \<not> matches_allowed_prefix (js_prop body ''model'')))"

text \<open>
  The handler validates a body unless its \<open>model\<close> sends it elsewhere first: a string
  that starts with \<open>local-\<close> or \<open>gemma-\<close> goes to the local gateway, and on a truthy
  value that is not a string the prefix test throws. So a body reaches the validation step
  when its \<open>model\<close> is absent, falsy, or a string without these two prefixes.
\<close>

definition reaches_validation :: "json \<Rightarrow> bool" where
  "reaches_validation body =
     (body \<noteq> JNull
      \<and> (case js_prop body ''model'' of
            None \<Rightarrow> True
          | Some (JStr m) \<Rightarrow> \<not> (startsWith m ''local-'' \<or> startsWith m ''gemma-'')
          | Some v \<Rightarrow> \<not> truthy (Some v)))"

text \<open>
  The transcoding as the specification words it, to be compared with \<open>toOpenAI\<close>. The
  text of a block is the text of a text block and nothing for any other block; the joined
  text of a content array is the texts of its blocks, in order.
\<close>

definition block_text :: "json \<Rightarrow> string" where
  "block_text b =
     (if js_prop b ''type'' = Some (JStr ''text'')
      then (case js_prop b ''text'' of Some (JStr t) \<Rightarrow> t | _ \<Rightarrow> [])
      else [])"

definition joined_text :: "json list \<Rightarrow> string" where
  "joined_text blocks = concat (map block_text blocks)"

text \<open>
  The requests the comparison is made for. A content block is an object; a text block
  carries a non-empty string \<open>text\<close> and no other block has a property \<open>text\<close>; a
  \<open>tool_use\<close> carries \<open>id\<close>, \<open>name\<close> and \<open>input\<close>, a \<open>tool_result\<close> carries
  \<open>tool_use_id\<close>. A message is an object with a \<open>role\<close> whose \<open>content\<close> is a string or
  an array of such blocks.
\<close>

definition well_formed_block :: "json \<Rightarrow> bool" where
  "well_formed_block b =
     (case b of
        JObj kvs \<Rightarrow>
          (if map_of kvs ''type'' = Some (JStr ''text'') then
             (case map_of kvs ''text'' of Some (JStr t) \<Rightarrow> t \<noteq> [] | _ \<Rightarrow> False)
           else if map_of kvs ''type'' = Some (JStr ''tool_use'') then
             map_of kvs ''text'' = None \<and> map_of kvs ''id'' \<noteq> None
             \<and> map_of kvs ''name'' \<noteq> None \<and> map_of kvs ''input'' \<noteq> None
           else if map_of kvs ''type'' = Some (JStr ''tool_result'') then
             map_of kvs ''text'' = None \<and> map_of kvs ''tool_use_id'' \<noteq> None
           else map_of kvs ''text'' = None)
      | _ \<Rightarrow> False)"

definition well_formed_message :: "json \<Rightarrow> bool" where
  "well_formed_message msg =
     (case msg of
        JObj kvs \<Rightarrow>
          map_of kvs ''role'' \<noteq> None
          \<and> (case map_of kvs ''content'' of
                Some (JStr s) \<Rightarrow> True
              | Some (JArr blocks) \<Rightarrow> list_all well_formed_block blocks
              | _ \<Rightarrow> False)
      | _ \<Rightarrow> False)"

text \<open>
  The entry \<open>{id, type: 'function', function: {name, arguments: JSON.stringify(input)}}\<close>
  for a \<open>tool_use\<close>, and the message \<open>{role: 'tool', tool_call_id, content}\<close> for a
  \<open>tool_result\<close>, whose content is kept when it is a string and stringified otherwise.
\<close>

definition tool_call_entry :: "host \<Rightarrow> json \<Rightarrow> json" where
  "tool_call_entry h tu =
     (case js_prop tu ''id'' of
        Some i \<Rightarrow>
          (case js_prop tu ''name'' of
             Some n \<Rightarrow>
               (case js_prop tu ''input'' of
                  Some inp \<Rightarrow>
                    JObj [(''id'', i), (''type'', JStr ''function''),
                          (''function'',
                             JObj [(''name'', n),
                                   (''arguments'', JStr (JSON_stringify h inp))])]
                | None \<Rightarrow> JNull)
           | None \<Rightarrow> JNull)
      | None \<Rightarrow> JNull)"

definition tool_message :: "host \<Rightarrow> json \<Rightarrow> json" where
  "tool_message h tr =
     (case js_prop tr ''tool_use_id'' of
        Some i \<Rightarrow>
          JObj ([(''role'', JStr ''tool''), (''tool_call_id'', i)]
                @ (case js_prop tr ''content'' of
                     None \<Rightarrow> []
                   | Some (JStr s) \<Rightarrow> [(''content'', JStr s)]
                   | Some c \<Rightarrow> [(''content'', JStr (JSON_stringify h c))]))
      | None \<Rightarrow> JNull)"

text \<open>
  What a message with block content becomes. With a tool result: a message with the
  message's role carrying the joined text of all its text blocks, left out when there is
  no text, then one tool message per tool result. Without one, for the role
  \<open>assistant\<close>: one assistant message whose content is the joined text (\<open>null\<close> when
  there is none) and whose \<open>tool_calls\<close>, present when there is a tool use, has one entry
  per tool use. Otherwise: one message with the role and the joined text.
\<close>

definition expected_for_blocks :: "host \<Rightarrow> json \<Rightarrow> json list \<Rightarrow> json list" where
  "expected_for_blocks h role blocks =
     (if list_ex (\<lambda>b. js_prop b ''type'' = Some (JStr ''tool_result'')) blocks then
        (if joined_text blocks = [] then []
         else [JObj [(''role'', role), (''content'', JStr (joined_text blocks))]])
        @ map (tool_message h)
            (filter (\<lambda>b. js_prop b ''type'' = Some (JStr ''tool_result'')) blocks)
      else if role = JStr ''assistant'' then
        [JObj ([(''role'', JStr ''assistant''),
                (''content'',
                   if joined_text blocks = [] then JNull else JStr (joined_text blocks))]
               @ (if list_ex (\<lambda>b. js_prop b ''type'' = Some (JStr ''tool_use'')) blocks
                  then [(''tool_calls'',
                         JArr (map (tool_call_entry h)
                                 (filter (\<lambda>b. js_prop b ''type'' = Some (JStr ''tool_use''))
                                    blocks)))]
                  else []))]
      else [JObj [(''role'', role), (''content'', JStr (joined_text blocks))]])"

text \<open>A message with string content keeps its role and content.\<close>

definition expected_messages :: "host \<Rightarrow> json \<Rightarrow> json list" where
  "expected_messages h msg =
     (case js_prop msg ''role'' of
        Some role \<Rightarrow>
          (case js_prop msg ''content'' of
             Some (JStr s) \<Rightarrow> [JObj [(''role'', role), (''content'', JStr s)]]
           | Some (JArr blocks) \<Rightarrow> expected_for_blocks h role blocks
           | _ \<Rightarrow> [])
      | None \<Rightarrow> [])"

text \<open>A truthy \<open>system\<close> becomes a leading \<open>system\<close> message.\<close>

definition expected_system :: "json option \<Rightarrow> json list" where
  "expected_system sys =
     (case sys of
        Some v \<Rightarrow>
          (if truthy (Some v) then [JObj [(''role'', JStr ''system''), (''content'', v)]]
           else [])
      | None \<Rightarrow> [])"

section \<open>Properties\<close>

subsection \<open>Error classification\<close>

lemma parseError_quota_without_401:
  assumes "js_includes message ''429'' \<or> js_includes message ''RESOURCE_EXHAUSTED''
             \<or> js_includes message ''QUOTA_EXHAUSTED''"
    and "\<not> js_includes message ''401''" and "\<not> js_includes message ''UNAUTHENTICATED''"
  shows "errorType (parseError message) = ''invalid_request_error''
           \<and> statusCode (parseError message) = 400"
  using assms by (simp add: parseError_def Let_def)

lemma parseError_status_never_429: "statusCode (parseError message) \<noteq> 429"
  by (simp add: parseError_def Let_def)

text \<open>
  The catch block never reaches the lines that write the error: the function it calls on
  the session manager is not one the session manager exports.
\<close>

lemma messages_catch_throws:
  "messages_catch refreshMessage headersSent message
     = CatchThrew ''sessionManager.getSessionByRequest is not a function''"
  by (simp add: messages_catch_def Let_def sessionManager_exports_def)

text \<open>
  The test for \<open>401\<close> runs first and is a plain substring test, so a quota error whose
  text happens to contain the digits \<open>401\<close> (here in the model name) is classified as an
  authentication error.
\<close>

lemma parseError_quota_shadowed_by_401:
  "js_includes (rateLimitedMessage ''claude-x-20240101'' ''5m0s'' ''2026-02-06T10:00:00.000Z'')
     ''RESOURCE_EXHAUSTED''
   \<and> errorType
       (parseError
          (rateLimitedMessage ''claude-x-20240101'' ''5m0s'' ''2026-02-06T10:00:00.000Z''))
     = ''authentication_error''
   \<and> statusCode
       (parseError
          (rateLimitedMessage ''claude-x-20240101'' ''5m0s'' ''2026-02-06T10:00:00.000Z''))
     = 401"
  by (simp add: rateLimitedMessage_def parseError_def startsWith_def)

text \<open>
  The message the dispatcher builds for a pool that is exhausted for \<open>claude-sonnet-4-5\<close>
  says \<open>RESOURCE_EXHAUSTED\<close> and contains neither \<open>401\<close> nor \<open>UNAUTHENTICATED\<close>.
\<close>

lemma quota_message_tests:
  "\<not> js_includes
        (rateLimitedMessage ''claude-sonnet-4-5'' ''5m0s'' ''2026-02-06T10:00:00.000Z'') ''401''
   \<and> \<not> js_includes
        (rateLimitedMessage ''claude-sonnet-4-5'' ''5m0s'' ''2026-02-06T10:00:00.000Z'')
        ''UNAUTHENTICATED''
   \<and> js_includes
        (rateLimitedMessage ''claude-sonnet-4-5'' ''5m0s'' ''2026-02-06T10:00:00.000Z'')
        ''RESOURCE_EXHAUSTED''"
  by (simp add: rateLimitedMessage_def startsWith_def)

text \<open>
  Claim C6. A dispatch failure whose error says that the quota is exhausted should reach
  the client of a non-streaming request as HTTP 400 \<open>invalid_request_error\<close>. The
  message below is the one the dispatcher builds for a pool that is exhausted for
  \<open>claude-sonnet-4-5\<close>. \<open>parseError\<close> classifies it as the claim says, status 400 and
  \<open>invalid_request_error\<close>; but the \<open>catch\<close> block of the handler, before it writes
  anything, calls \<open>sessionManager.getSessionByRequest\<close>, which the session manager does
  not export, so the block throws and no response is sent at all.
\<close>

theorem C6_quota_error_gets_no_response:
  "js_includes (rateLimitedMessage ''claude-sonnet-4-5'' ''5m0s'' ''2026-02-06T10:00:00.000Z'')
     ''RESOURCE_EXHAUSTED''
   \<and> statusCode
       (parseError
          (rateLimitedMessage ''claude-sonnet-4-5'' ''5m0s'' ''2026-02-06T10:00:00.000Z''))
     = 400
   \<and> errorType
       (parseError
          (rateLimitedMessage ''claude-sonnet-4-5'' ''5m0s'' ''2026-02-06T10:00:00.000Z''))
     = ''invalid_request_error''
   \<and> messages_catch r False
       (rateLimitedMessage ''claude-sonnet-4-5'' ''5m0s'' ''2026-02-06T10:00:00.000Z'')
     = CatchThrew ''sessionManager.getSessionByRequest is not a function''"
  using quota_message_tests
    parseError_quota_without_401
      [of "rateLimitedMessage ''claude-sonnet-4-5'' ''5m0s'' ''2026-02-06T10:00:00.000Z''"]
    messages_catch_throws
      [of r False "rateLimitedMessage ''claude-sonnet-4-5'' ''5m0s'' ''2026-02-06T10:00:00.000Z''"]
  by blast


subsection \<open>Routing of the token-counting endpoint\<close>

lemma legacy_count_tokens:
  assumes "pre ''POST'' ''/v1/messages/count_tokens'' = None"
  shows "legacy_server pre post ''POST'' ''/v1/messages/count_tokens'' = countTokens"
  using assms
  by (simp add: legacy_server_def routePath_def toLowerCase_def toLowerChar_def isUpper_def)

lemma modular_count_tokens:
  assumes "pre ''POST'' ''/v1/messages/count_tokens'' = None"
  shows "modular_server pre True ''POST'' ''/v1/messages/count_tokens''
           = notFound ''POST'' ''/v1/messages/count_tokens''"
  using assms
  by (simp add: modular_server_def routePath_def usePath_def paramPath_def startsWith_def
      toLowerCase_def toLowerChar_def isUpper_def)

text \<open>
  Claim C8. \<open>POST /v1/messages/count_tokens\<close> should always be answered 501
  \<open>not_implemented\<close>. The single-file server has the route and answers so. The modular
  server that is started has no such route: the request passes the messages router (which
  only has \<open>POST /messages\<close>) and the models router (\<open>GET /models\<close>) and ends in the
  catch-all, which answers 404 \<open>not_found_error\<close>.
\<close>

theorem C8_count_tokens_falls_to_404:
  "modular_server passOn True ''POST'' ''/v1/messages/count_tokens''
     = ErrorAnswer 404 ''not_found_error''
         ''Endpoint POST /v1/messages/count_tokens not found''
   \<and> legacy_server passOn passOn ''POST'' ''/v1/messages/count_tokens''
     = ErrorAnswer 501 ''not_implemented''
         ''Token counting is not implemented. Use /v1/messages with max_tokens or configure your client to skip token counting.''"
  by (simp add: modular_count_tokens legacy_count_tokens passOn_def notFound_def
      countTokens_def)

subsection \<open>The prototype-pollution scan\<close>

lemma dangerous_key_detected_aux:
  shows "contains_dangerous_key v \<Longrightarrow> hasPrototypePollution v d"
    and "items_contain_dangerous_key xs \<Longrightarrow> d \<le> 50 \<Longrightarrow> hasPrototypePollution_items xs d"
    and "props_contain_dangerous_key kvs \<Longrightarrow> d \<le> 50 \<Longrightarrow> hasPrototypePollution_keys kvs d"
  by (induction v and xs and kvs arbitrary: d and d and d
      rule: contains_dangerous_key_items_contain_dangerous_key_props_contain_dangerous_key.induct)
     (auto simp: DANGEROUS_KEYS_def)

lemma dangerous_key_detected: "contains_dangerous_key v \<Longrightarrow> hasPrototypePollution v 0"
  by (rule dangerous_key_detected_aux(1))

lemma too_deep_detected_aux:
  shows "50 < nesting_depth v + d \<Longrightarrow> hasPrototypePollution v d"
    and "50 < items_depth xs + d \<Longrightarrow> d \<le> 50 \<Longrightarrow> hasPrototypePollution_items xs d"
    and "50 < props_depth kvs + d \<Longrightarrow> d \<le> 50 \<Longrightarrow> hasPrototypePollution_keys kvs d"
proof (induction v and xs and kvs arbitrary: d and d and d
    rule: nesting_depth_items_depth_props_depth.induct)
  case (8 x xs)
  then show ?case by (auto simp: max_def split: if_splits)
next
  case (10 k v rest)
  then show ?case by (auto simp: max_def split: if_splits)
qed auto

lemma too_deep_detected: "50 < nesting_depth v \<Longrightarrow> hasPrototypePollution v 0"
  using too_deep_detected_aux(1)[of v 0] by simp

subsection \<open>Routing in the messages handler\<close>

lemmas validate_defs =
  validateMessages_def DANGEROUS_KEYS_def systemSection_def toolsSection_def
  thinkingSection_def messagesSection_def modelSection_def maxTokensSection_def
  temperatureSection_def topPSection_def topKSection_def streamSection_def messageErrors_def
  validateMessageContent_def MAX_MESSAGE_LENGTH_def MAX_MESSAGES_def

lemmas route_defs =
  messages_route_def messages_try_def validationStep_def validate_defs isAllowedModel_def
  allowedPrefixes_def startsWith_def buildRequest_def validatedData_def
  MAX_TOKENS_DEFAULT_def errorBody_def

lemma lower_LOCAL_llama: "toLowerCase ''LOCAL-llama'' = ''local-llama''"
  by code_simp

lemma lower_GEMMA_7b: "toLowerCase ''GEMMA-7b'' = ''gemma-7b''"
  by code_simp

text \<open>
  On the route to the dispatcher a body that the scan flags is answered 400 before
  anything else happens.
\<close>

lemma pollution_rejected:
  assumes "hasPrototypePollution body 0"
    and "js_prop body ''model'' = None \<or> js_prop body ''model'' = Some JNull
         \<or> js_prop body ''model'' = Some (JStr m) \<and> \<not> startsWith m ''local-''
            \<and> \<not> startsWith m ''gemma-''"
  shows "messages_route h env r body
           = Rejected 400
               (errorBody ''invalid_request_error'' ''Prototype pollution attempt detected'')"
proof -
  have nn: "body \<noteq> JNull" using assms(1) by auto
  have v: "validateMessages h body = Inr (Invalid [''Prototype pollution attempt detected''])"
    using assms(1) by (simp add: validateMessages_def)
  have "messages_try h env body = validationStep h body"
    using assms(2) nn by (auto simp: messages_try_def)
  then show ?thesis by (simp add: messages_route_def validationStep_def v errorBody_def)
qed

text \<open>A request for a model with one of the two gateway prefixes is never validated.\<close>

lemma gateway_skips_validation:
  assumes "js_prop body ''model'' = Some (JStr m)"
    and "startsWith m ''local-'' \<or> startsWith m ''gemma-''"
  shows "\<exists>sent out. messages_route h env r body = LocalGateway sent out"
proof -
  have "m \<noteq> []" using assms(2) by (auto simp: startsWith_def)
  moreover have "body \<noteq> JNull" using assms(1) by auto
  ultimately show ?thesis
    using assms by (auto simp: messages_route_def messages_try_def split: prod.splits)
qed

text \<open>
  Claim C1. A body with a dangerous key should be rejected with 400 before any upstream
  request, also when the model starts with \<open>local-\<close> or \<open>gemma-\<close>. The handler tests the
  gateway prefixes before it validates: the body below, a request for \<open>local-llama\<close>
  with the key \<open>__proto__\<close>, is flagged by the scan, and yet it is transcoded and posted
  to the local endpoint.
\<close>

theorem C1_polluted_local_request_sent_upstream:
  "hasPrototypePollution polluted_local_body 0
   \<and> sent_upstream (messages_route h env r polluted_local_body)
     = [(targetUrl env,
         JObj [(''model'', JStr ''local-llama''),
               (''messages'',
                  JArr [JObj [(''role'', JStr ''user''), (''content'', JStr ''hi'')]])])]"
  apply (simp add: polluted_local_body_def DANGEROUS_KEYS_def)
  apply (simp add: messages_route_def messages_try_def startsWith_def handleLocalRequest_def
      toOpenAI_def hi_messages_def convertMessage_def toolsPayload_def toolChoicePayload_def
      systemMessage_def split: fetch_outcome.splits)
  done

text \<open>
  Claim C4. Classification by model prefix should not depend on case. The gateway test
  uses the case-sensitive \<open>startsWith\<close>, the validator lowers the name first. So
  \<open>LOCAL-llama\<close>, whose lowered name starts with \<open>local-\<close>, misses the gateway, passes
  the validator (which allows \<open>local-\<close>) and goes to the Cloud-Code dispatcher under
  that name; and \<open>GEMMA-7b\<close>, whose lowered name starts with \<open>gemma-\<close>, misses the
  gateway and is rejected by the validator, which has no \<open>gemma-\<close> prefix.
\<close>

theorem C4_uppercase_local_prefix_misrouted:
  "startsWith (toLowerCase ''LOCAL-llama'') ''local-''
   \<and> messages_route h env r (body_with_model ''LOCAL-llama'')
     = CloudDispatch (buildRequest (validatedData (body_with_model ''LOCAL-llama'')))
   \<and> model (buildRequest (validatedData (body_with_model ''LOCAL-llama''))) = JStr ''LOCAL-llama''
   \<and> startsWith (toLowerCase ''GEMMA-7b'') ''gemma-''
   \<and> messages_route h env r (body_with_model ''GEMMA-7b'')
     = Rejected 400
         (errorBody ''invalid_request_error'' ''model 'GEMMA-7b' is not allowed.'')"
  by (simp add: route_defs body_with_model_def hi_messages_def lower_LOCAL_llama
      lower_GEMMA_7b)

lemma map_of_setProp: "map_of (setProp k v kvs) k' = (if k' = k then Some v else map_of kvs k')"
  by (induction kvs) auto

lemma valid_body_is_object:
  assumes "validateMessages h body = Inr (Valid data)"
  shows "\<exists>kvs. body = JObj kvs"
proof (cases body)
  case (JObj kvs)
  then show ?thesis by simp
qed (use assms in \<open>auto simp: validateMessages_def messagesSection_def Let_def
         split: if_splits sum.splits\<close>)

lemma valid_data:
  assumes "validateMessages h body = Inr (Valid data)"
  shows "data = validatedData body"
  using assms by (auto simp: validateMessages_def Let_def split: if_splits sum.splits)

text \<open>
  Claim C10. A body without the \<open>model\<close> field: the model section of the validator adds
  no error, and when the body passes the other checks the handler builds the request for
  the dispatcher with the default model \<open>claude-3-5-sonnet-20241022\<close>.
\<close>

theorem C10_missing_model_uses_default:
  assumes "js_prop body ''model'' = None"
    and "validateMessages h body = Inr (Valid data)"
  shows "modelSection body = []
         \<and> messages_route h env r body = CloudDispatch (buildRequest data)
         \<and> model (buildRequest data) = JStr ''claude-3-5-sonnet-20241022''"
proof -
  obtain kvs where b: "body = JObj kvs"
    using valid_body_is_object[OF assms(2)] by blast
  have d: "data = validatedData body"
    by (rule valid_data[OF assms(2)])
  have m: "js_prop data ''model'' = None"
    using assms(1) by (simp add: d b validatedData_def map_of_setProp)
  have t: "messages_try h env body = validationStep h body"
    using assms(1) b by (simp add: messages_try_def)
  show ?thesis
    using assms(1) m
    by (simp add: messages_route_def t validationStep_def assms(2) modelSection_def
        buildRequest_def DEFAULT_MODEL_def)
qed

theorem C10_missing_model_witness:
  "js_prop body_without_model ''model'' = None
   \<and> validateMessages demo_host body_without_model
     = Inr (Valid (validatedData body_without_model))
   \<and> messages_route demo_host demo_env [] body_without_model
     = CloudDispatch (buildRequest (validatedData body_without_model))
   \<and> model (buildRequest (validatedData body_without_model))
     = JStr ''claude-3-5-sonnet-20241022''"
proof -
  have a: "js_prop body_without_model ''model'' = None"
    by (simp add: body_without_model_def)
  have v: "validateMessages demo_host body_without_model
             = Inr (Valid (validatedData body_without_model))"
    by (simp add: validate_defs body_without_model_def hi_messages_def isPositiveInt_def
        MAX_TOKENS_UPPER_def)
  show ?thesis
    using a v C10_missing_model_uses_default[OF a v, of demo_env "[]"] by simp
qed

subsection \<open>The stream of the local gateway\<close>

lemma event_type:
  assumes "fromOpenAIStream h j idx = Inr (Some ev)"
  shows "js_prop ev ''type'' = Some (JStr ''content_block_delta'')
         \<or> js_prop ev ''type'' = Some (JStr ''content_block_start'')"
  using assms
  by (auto simp: fromOpenAIStream_def toolCallsEvent_def toolCallEvent_def
      split: if_splits option.splits json.splits)

lemma streamLine_no_start: "\<not> list_ex is_message_start (streamLine h line)"
  by (auto simp: streamLine_def writeSSE_def template_def dest!: event_type
      split: option.splits sum.splits)

lemma streamChunk_no_start: "\<not> list_ex is_message_start (streamChunk h str)"
  using streamLine_no_start by (auto simp: streamChunk_def list_ex_iff)

lemma streamResponse_no_start:
  assumes "streamResponse h bodyStream = Inr frames"
  shows "\<not> list_ex is_message_start frames \<and> last frames = message_stop"
  using assms streamChunk_no_start
  by (auto simp: streamResponse_def list_ex_iff message_stop_def split: body_stream.splits)

text \<open>
  What the listeners of \<open>streamResponse\<close> write for a stream of one text chunk \<open>ok\<close>,
  when they are given a stream that has \<open>on\<close>: the text delta and \<open>message_stop\<close>.
\<close>

lemma streamResponse_ok_chunk:
  "streamResponse ok_host (NodeReadable [ok_chunk])
     = Inr [Frame ''content_block_delta''
              (JObj [(''type'', JStr ''content_block_delta''),
                     (''delta'',
                        JObj [(''type'', JStr ''text_delta''), (''text'', JStr ''ok'')])]),
            Frame ''message_stop'' (JObj [(''type'', JStr ''message_stop'')])]"
  by (simp add: streamResponse_def streamChunk_def streamLine_def ok_chunk_def ok_text_def
      ok_host_def demo_host_def ok_json_def startsWith_def fromOpenAIStream_def chunkDelta_def
      writeSSE_def template_def message_stop_def)

text \<open>
  Claim C3. A streamed request for a local model, whose upstream answers with a stream of
  one text chunk \<open>ok\<close>, should reach the client as \<open>message_start\<close>, the text delta,
  \<open>message_stop\<close>. The request is posted upstream, but the client receives no event at
  all: \<open>streamResponse\<close> calls \<open>on\<close> on the body of the global \<open>fetch\<close>, which has no
  such method, and the error is answered as 502 \<open>api_error\<close>.
\<close>

theorem C3_streamed_local_request_answered_502:
  "messages_route ok_host ok_stream_env r streamed_local_body
     = LocalGateway
         [(''http://localhost:1234/v1/chat/completions'',
           JObj [(''model'', JStr ''local-llama''),
                 (''messages'',
                    JArr [JObj [(''role'', JStr ''user''), (''content'', JStr ''hi'')]]),
                 (''stream'', JBool True)])]
         (JsonOut 502 (errorBody ''api_error'' ''bodyStream.on is not a function''))"
  by (simp add: messages_route_def messages_try_def startsWith_def handleLocalRequest_def
      toOpenAI_def hi_messages_def convertMessage_def toolsPayload_def toolChoicePayload_def
      systemMessage_def streamed_local_body_def ok_stream_env_def targetUrl_def bearerKey_def
      streamResponse_def handleError_def)

subsection \<open>Account selection in the streaming dispatcher\<close>

lemma stickyPhase_effects:
  "fst (snd (stickyPhase am m st)) = []
   \<or> (\<exists>w. w > 0 \<and> fst (snd (stickyPhase am m st)) = [Sleep w, ClearExpiredLimits])"
  by (auto simp: stickyPhase_def split: prod.splits)

text \<open>
  Entered with the whole pool rate-limited and the earliest reset more than 120000 ms
  away, the step fails and does nothing else: no sleep, no change of the pool.
\<close>

lemma exhaustedPhase_fails_without_effect:
  assumes "isAllRateLimited am m st" and "getMinWaitTimeMs am m st > 120000"
  shows "exhaustedPhase am fallbackEnabled m st
           = (Failure (rateLimitedMessage m (formatDuration am (getMinWaitTimeMs am m st))
                         (resetTimeISO am st (getMinWaitTimeMs am m st))),
              [], st)"
  using assms by (simp add: exhaustedPhase_def MAX_WAIT_BEFORE_ERROR_MS_def Let_def)

text \<open>
  Claim C7. The dispatcher makes its pool-wide check when the sticky step of the attempt
  has ended without an account, in the state \<open>st'\<close> that step leaves and after the
  effects \<open>effs\<close> of that step. When every account is rate-limited for the model there,
  it takes the minimum wait of the pool: above 120000 ms it fails with the
  \<open>RESOURCE_EXHAUSTED\<close> error and adds no effect, so it does not sleep and leaves the
  state as it is; otherwise it sleeps for exactly that wait, clears the expired limits and
  picks an account again.
\<close>

theorem C7_exhausted_pool:
  assumes "stickyPhase am m st = (None, effs, st')"
    and "isAllRateLimited am m st'"
  shows "selectAccount am fallbackEnabled m st =
           (if getMinWaitTimeMs am m st' > 120000
            then (Failure (rateLimitedMessage m (formatDuration am (getMinWaitTimeMs am m st'))
                             (resetTimeISO am st' (getMinWaitTimeMs am m st'))),
                  effs, st')
            else (noAccountStep am fallbackEnabled m
                    (fst (pickNext am m
                            (clearExpiredLimits am (sleep am (getMinWaitTimeMs am m st') st')))),
                  effs @ [Sleep (getMinWaitTimeMs am m st'), ClearExpiredLimits],
                  snd (pickNext am m
                         (clearExpiredLimits am (sleep am (getMinWaitTimeMs am m st') st')))))"
  using assms
  by (simp add: selectAccount_def exhaustedPhase_def MAX_WAIT_BEFORE_ERROR_MS_def Let_def
      split: prod.splits)

text \<open>
  Both branches at time 0: the pool that resets in 200 s fails at once, with no effect;
  the pool that resets in 30 s sleeps 30000 ms and then selects its account.
\<close>

theorem C7_exhausted_pool_witness:
  "stickyPhase exhausted_pool ''claude-sonnet-4-5'' 0 = (None, [], 0)
   \<and> isAllRateLimited exhausted_pool ''claude-sonnet-4-5'' 0
   \<and> selectAccount exhausted_pool False ''claude-sonnet-4-5'' 0
      = (Failure ''RESOURCE_EXHAUSTED: Rate limited on claude-sonnet-4-5. Quota will reset after 3m20s. Next available: 2026-02-06T10:03:20.000Z'',
         [], 0)
   \<and> stickyPhase short_wait_pool ''claude-sonnet-4-5'' 0 = (None, [], 0)
   \<and> isAllRateLimited short_wait_pool ''claude-sonnet-4-5'' 0
   \<and> selectAccount short_wait_pool False ''claude-sonnet-4-5'' 0
      = (Selected ''a@example.com'', [Sleep 30000, ClearExpiredLimits], 30000)"
proof -
  have a: "stickyPhase exhausted_pool ''claude-sonnet-4-5'' 0 = (None, [], 0)"
    by (simp add: stickyPhase_def exhausted_pool_def pool_resetting_at_def)
  have b: "isAllRateLimited exhausted_pool ''claude-sonnet-4-5'' 0"
    by (simp add: exhausted_pool_def pool_resetting_at_def)
  have c: "stickyPhase short_wait_pool ''claude-sonnet-4-5'' 0 = (None, [], 0)"
    by (simp add: stickyPhase_def short_wait_pool_def pool_resetting_at_def)
  have d: "isAllRateLimited short_wait_pool ''claude-sonnet-4-5'' 0"
    by (simp add: short_wait_pool_def pool_resetting_at_def)
  show ?thesis
    using a b c d C7_exhausted_pool[OF a b, of False] C7_exhausted_pool[OF c d, of False]
    by (simp add: exhausted_pool_def short_wait_pool_def pool_resetting_at_def
        noAccountStep_def rateLimitedMessage_def)
qed

subsection \<open>Retries for an empty response\<close>

lemma retry_step:
  assumes "k < 3" and "ending r = EmptyResponse"
    and "refetch (Suc k) = Refetched r'" and "resp_ok r'"
  shows "streamWithRetries url payload fallback refetch k r
           = (case streamWithRetries url payload fallback refetch (Suc k) r' of
                (evs, effs, out) \<Rightarrow> (yielded r @ evs, Fetch url payload # effs, out))"
  using assms by (subst streamWithRetries.simps) (simp add: MAX_EMPTY_RESPONSE_RETRIES_def)



text \<open>
  A retry that succeeds ends the loop: when the first response is empty and the response
  fetched again completes, the client receives the events of that response and there is
  one repeated request.
\<close>

lemma retry_then_completed:
  assumes "ending r0 = EmptyResponse" and "yielded r0 = []"
    and "refetch 1 = Refetched r1" "resp_ok r1" "ending r1 = Completed"
  shows "streamWithRetries url payload fallback refetch 0 r0
           = (yielded r1, [Fetch url payload], Return)"
proof -
  have "streamWithRetries url payload fallback refetch 1 r1 = (yielded r1, [], Return)"
    using assms(5) by (subst streamWithRetries.simps) (simp add: MAX_EMPTY_RESPONSE_RETRIES_def)
  then show ?thesis
    using retry_step[of 0 r0 refetch r1 url payload fallback] assms
    by (simp add: eval_nat_numeral)
qed



subsection \<open>The Anthropic to OpenAI transcoder\<close>

lemma wf_block_object: "well_formed_block b \<Longrightarrow> \<exists>kvs. b = JObj kvs"
  by (cases b) (auto simp: well_formed_block_def)

lemma wf_blocks_no_null: "list_all well_formed_block blocks \<Longrightarrow> JNull \<notin> set blocks"
  by (auto simp: list_all_iff well_formed_block_def)

lemma hasToolResult_clean:
  "JNull \<notin> set blocks \<Longrightarrow> hasToolResult blocks = Inr (list_ex isToolResultBlock blocks)"
  by (induction blocks) (auto simp: isToolResultBlock_def)

lemma filterTextParts_clean:
  "JNull \<notin> set blocks \<Longrightarrow>
     filterTextParts blocks
       = Inr (filter (\<lambda>c. isTextBlock c \<or> typeof c = ''string'') blocks)"
  by (induction blocks) (auto simp: isTextBlock_def)

lemma wf_text_filter:
  "list_all well_formed_block blocks \<Longrightarrow>
     filter (\<lambda>c. isTextBlock c \<or> typeof c = ''string'') blocks = filter isTextBlock blocks"
  by (rule filter_cong) (auto simp: list_all_iff dest!: wf_block_object)

lemma js_join_empty_sep: "js_join h [] xs = concat (map (js_join_elem h) xs)"
  by (induction xs rule: induct_list012) auto

lemma concat_filter_text:
  assumes "\<And>x. x \<in> set xs \<Longrightarrow> P x \<Longrightarrow> f x = g x"
    and "\<And>x. x \<in> set xs \<Longrightarrow> \<not> P x \<Longrightarrow> g x = []"
  shows "concat (map f (filter P xs)) = concat (map g xs)"
  using assms by (induction xs) auto

lemma text_block_textOrSelf:
  "well_formed_block b \<Longrightarrow> isTextBlock b \<Longrightarrow> js_join_elem h (textOrSelf b) = block_text b"
  by (cases b)
     (auto simp: well_formed_block_def isTextBlock_def textOrSelf_def block_text_def
       split: option.splits json.splits)

lemma text_block_textOf:
  "well_formed_block b \<Longrightarrow> isTextBlock b \<Longrightarrow> js_join_elem h (textOf b) = block_text b"
  by (cases b)
     (auto simp: well_formed_block_def isTextBlock_def textOf_def block_text_def
       split: option.splits json.splits)

lemma block_textOrEmpty:
  "well_formed_block b \<Longrightarrow> js_join_elem h (textOrEmpty b) = block_text b"
  by (cases b)
     (auto simp: well_formed_block_def textOrEmpty_def block_text_def
       split: option.splits json.splits if_splits)

lemma other_block_no_text: "\<not> isTextBlock b \<Longrightarrow> block_text b = []"
  by (simp add: isTextBlock_def block_text_def)

lemma join_textOrSelf:
  assumes "list_all well_formed_block blocks"
  shows "js_join h [] (map textOrSelf (filter isTextBlock blocks)) = joined_text blocks"
proof -
  have "concat (map (\<lambda>b. js_join_elem h (textOrSelf b)) (filter isTextBlock blocks))
          = concat (map block_text blocks)"
    using assms
    by (intro concat_filter_text) (auto simp: list_all_iff text_block_textOrSelf other_block_no_text)
  then show ?thesis by (simp add: js_join_empty_sep joined_text_def comp_def)
qed

lemma join_textOf:
  assumes "list_all well_formed_block blocks"
  shows "js_join h [] (map textOf (filter isTextBlock blocks)) = joined_text blocks"
proof -
  have "concat (map (\<lambda>b. js_join_elem h (textOf b)) (filter isTextBlock blocks))
          = concat (map block_text blocks)"
    using assms
    by (intro concat_filter_text) (auto simp: list_all_iff text_block_textOf other_block_no_text)
  then show ?thesis by (simp add: js_join_empty_sep joined_text_def comp_def)
qed

lemma join_textOrEmpty:
  assumes "list_all well_formed_block blocks"
  shows "js_join h [] (map textOrEmpty blocks) = joined_text blocks"
proof -
  have eq: "map (\<lambda>b. js_join_elem h (textOrEmpty b)) blocks = map block_text blocks"
    using assms by (intro map_cong) (auto simp: list_all_iff block_textOrEmpty)
  have "js_join h [] (map textOrEmpty blocks)
          = concat (map (\<lambda>b. js_join_elem h (textOrEmpty b)) blocks)"
    by (simp add: js_join_empty_sep comp_def)
  also have "\<dots> = concat (map block_text blocks)" by (simp only: eq)
  finally show ?thesis by (simp add: joined_text_def)
qed

lemma toolCall_entry:
  "well_formed_block tu \<Longrightarrow> isToolUseBlock tu \<Longrightarrow> toolCall h tu = tool_call_entry h tu"
  by (cases tu)
     (auto simp: well_formed_block_def isToolUseBlock_def toolCall_def tool_call_entry_def
       split: if_splits)

lemma toolMessage_message:
  "well_formed_block tr \<Longrightarrow> isToolResultBlock tr \<Longrightarrow> toolMessage h tr = tool_message h tr"
  by (cases tr)
     (auto simp: well_formed_block_def isToolResultBlock_def toolMessage_def tool_message_def
       split: if_splits option.splits json.splits)

lemma map_toolCall:
  "list_all well_formed_block blocks \<Longrightarrow>
     map (toolCall h) (filter isToolUseBlock blocks)
       = map (tool_call_entry h) (filter isToolUseBlock blocks)"
  by (intro map_cong) (auto simp: list_all_iff toolCall_entry)

lemma map_toolMessage:
  "list_all well_formed_block blocks \<Longrightarrow>
     map (toolMessage h) (filter isToolResultBlock blocks)
       = map (tool_message h) (filter isToolResultBlock blocks)"
  by (intro map_cong) (auto simp: list_all_iff toolMessage_message)

lemma filter_empty_ex: "(filter P xs = []) = (\<not> list_ex P xs)"
  by (induction xs) auto

lemma convert_blocks:
  assumes "js_prop msg ''role'' = Some role" and "js_prop msg ''content'' = Some (JArr blocks)"
    and "list_all well_formed_block blocks"
  shows "convertMessage h msg = Inr (expected_for_blocks h role blocks)"
proof -
  have nn: "msg \<noteq> JNull" using assms(1) by auto
  have clean: "JNull \<notin> set blocks" using assms(3) by (rule wf_blocks_no_null)
  have tr: "(\<lambda>b. js_prop b ''type'' = Some (JStr ''tool_result'')) = isToolResultBlock"
    by (auto simp: isToolResultBlock_def)
  have tu: "(\<lambda>b. js_prop b ''type'' = Some (JStr ''tool_use'')) = isToolUseBlock"
    by (auto simp: isToolUseBlock_def)
  show ?thesis
  proof (cases "list_ex isToolResultBlock blocks")
    case True
    then show ?thesis
      using assms nn clean
      by (simp add: convertMessage_def hasToolResult_clean filterTextParts_clean
          wf_text_filter join_textOrSelf map_toolMessage expected_for_blocks_def tr tu Let_def)
  next
    case False
    show ?thesis
    proof (cases "role = JStr ''assistant''")
      case True
      then show ?thesis
        using assms nn clean False
        by (simp add: convertMessage_def hasToolResult_clean join_textOf map_toolCall
            expected_for_blocks_def tr tu Let_def filter_empty_ex)
    next
      case r: False
      then show ?thesis
        using assms nn clean False
        by (simp add: convertMessage_def hasToolResult_clean join_textOrEmpty
            expected_for_blocks_def tr tu Let_def)
    qed
  qed
qed

lemma convert_message:
  assumes "well_formed_message msg"
  shows "convertMessage h msg = Inr (expected_messages h msg)"
proof -
  obtain kvs where kvs: "msg = JObj kvs"
    using assms by (cases msg) (auto simp: well_formed_message_def)
  obtain role where role: "js_prop msg ''role'' = Some role"
    using assms kvs by (auto simp: well_formed_message_def)
  consider (str) s where "js_prop msg ''content'' = Some (JStr s)"
    | (arr) blocks where "js_prop msg ''content'' = Some (JArr blocks)"
        "list_all well_formed_block blocks"
    using assms kvs by (auto simp: well_formed_message_def split: option.splits json.splits)
  then show ?thesis
  proof cases
    case str
    then show ?thesis
      using role kvs by (simp add: convertMessage_def expected_messages_def)
  next
    case arr
    then show ?thesis
      using role convert_blocks[OF role arr(1) arr(2)] by (simp add: expected_messages_def)
  qed
qed

lemma convert_messages:
  "list_all well_formed_message msgs \<Longrightarrow>
     convertMessages h msgs = Inr (concat (map (expected_messages h) msgs))"
  by (induction msgs) (auto simp: convert_message)

lemma system_message: "systemMessage sys = expected_system sys"
  by (cases sys) (auto simp: systemMessage_def expected_system_def)

text \<open>
  Claim C9, as stated: a user message with a tool result should give a user message with
  the text parts that precede the tool result, then the tool message. The transcoder
  collects every text part of the message: in this request the text \<open>thanks\<close> follows
  the tool result, and it is emitted in a user message ahead of the tool message.
\<close>

theorem C9_text_after_tool_result_counterexample:
  "toOpenAI demo_host tool_result_request
     = Inr (JObj [(''messages'',
                     JArr [JObj [(''role'', JStr ''user''), (''content'', JStr ''thanks'')],
                           JObj [(''role'', JStr ''tool''), (''tool_call_id'', JStr ''t1''),
                                 (''content'', JStr ''42'')]])])"
  by (simp add: toOpenAI_def tool_result_request_def convertMessage_def
      tool_result_then_text_def textOrSelf_def isToolResultBlock_def toolMessage_def
      toolsPayload_def toolChoicePayload_def systemMessage_def)

text \<open>
  Claim C9, amended. For every request whose \<open>messages\<close> is an array of well-formed
  messages, and whose \<open>tools\<close> the transcoder can map, the payload is the one the
  specification describes: its \<open>messages\<close> are the leading system message, when
  \<open>system\<close> is truthy, followed by what each message becomes, in the order of the
  request; the other fields are copied. A message with a tool result becomes a message
  with the joined text of all its text blocks, also those after a tool result, or no such
  message when it has no text, followed by one tool message per tool result.
\<close>

theorem C9_transcoded_request:
  assumes "js_prop body ''messages'' = Some (JArr msgs)"
    and "list_all well_formed_message msgs"
    and "toolsPayload h (js_prop body ''tools'') = Inr mapped"
  shows "toOpenAI h body
           = Inr (object
               [(''model'', js_prop body ''model''),
                (''messages'',
                   Some (JArr (expected_system (js_prop body ''system'')
                                 @ concat (map (expected_messages h) msgs)))),
                (''stream'', js_prop body ''stream''),
                (''temperature'', js_prop body ''temperature''),
                (''max_tokens'', js_prop body ''max_tokens''),
                (''stop'', js_prop body ''stop_sequences''),
                (''tools'', mapped),
                (''tool_choice'', toolChoicePayload (js_prop body ''tool_choice''))])"
proof -
  have "body \<noteq> JNull" using assms(1) by auto
  then show ?thesis
    using assms
    by (simp add: toOpenAI_def convert_messages system_message del: object.simps)
qed


theorem C9_transcoded_request_witness:
  "js_prop weather_request ''messages'' = Some (JArr weather_messages)
   \<and> list_all well_formed_message weather_messages
   \<and> toolsPayload weather_host (js_prop weather_request ''tools'') = Inr None
   \<and> toOpenAI weather_host weather_request
     = Inr (JObj
         [(''model'', JStr ''local-llama''),
          (''messages'',
             JArr [JObj [(''role'', JStr ''system''), (''content'', JStr ''Be brief.'')],
                   JObj [(''role'', JStr ''user''), (''content'', JStr ''Weather in Paris?'')],
                   JObj [(''role'', JStr ''assistant''), (''content'', JStr ''Looking.''),
                         (''tool_calls'',
                            JArr [JObj [(''id'', JStr ''t1''), (''type'', JStr ''function''),
                                        (''function'',
                                           JObj [(''name'', JStr ''get_weather''),
                                                 (''arguments'', JStr paris_text)])]])],
                   JObj [(''role'', JStr ''user''), (''content'', JStr ''thanks'')],
                   JObj [(''role'', JStr ''tool''), (''tool_call_id'', JStr ''t1''),
                         (''content'', JStr ''42'')]])])"
proof -
  have a: "js_prop weather_request ''messages'' = Some (JArr weather_messages)"
    by (simp add: weather_request_def)
  have b: "list_all well_formed_message weather_messages"
    by (simp add: weather_messages_def well_formed_message_def well_formed_block_def
        tool_result_then_text_def)
  have c: "toolsPayload weather_host (js_prop weather_request ''tools'') = Inr None"
    by (simp add: weather_request_def toolsPayload_def)
  show ?thesis
    using a b c C9_transcoded_request[OF a b c]
    by (simp add: weather_request_def weather_messages_def tool_result_then_text_def
        expected_system_def expected_messages_def expected_for_blocks_def joined_text_def
        block_text_def tool_call_entry_def tool_message_def weather_host_def demo_host_def
        toolChoicePayload_def)
qed


subsection \<open>The validation contract\<close>

text \<open>
  The tests of the validator agree with the conditions of the contract as they are worded
  above.
\<close>

lemma isPositiveInt_iff:
  "isPositiveInt v lo hi
     \<longleftrightarrow> (\<exists>n::int. v = Some (JNum (Finite (of_int n))) \<and> lo \<le> n \<and> n \<le> hi)"
proof
  assume a: "isPositiveInt v lo hi"
  then obtain q where v: "v = Some (JNum (Finite q))" and i: "of_int (floor q) = q"
    and r: "\<not> q < of_int lo" "\<not> q > of_int hi"
    by (auto simp: isPositiveInt_def split: option.splits json.splits jsnumber.splits if_splits
        elim!: isInteger.elims)
  have "lo \<le> floor q" using r(1) by (simp add: le_floor_iff)
  moreover have "floor q \<le> hi" using r(2) by (simp add: floor_le_iff)
  ultimately show "\<exists>n::int. v = Some (JNum (Finite (of_int n))) \<and> lo \<le> n \<and> n \<le> hi"
    using v i by metis
next
  assume "\<exists>n::int. v = Some (JNum (Finite (of_int n))) \<and> lo \<le> n \<and> n \<le> hi"
  then show "isPositiveInt v lo hi"
    by (auto simp: isPositiveInt_def)
qed

lemma isNumberInRange_iff:
  "isNumberInRange v lo hi \<longleftrightarrow> (\<exists>q. v = Some (JNum (Finite q)) \<and> lo \<le> q \<and> q \<le> hi)"
  by (cases v rule: truthy.cases) (auto simp: isNumberInRange_def)

lemma integer_between_iff: "isPositiveInt v lo hi = integer_between v lo hi"
proof
  assume "isPositiveInt v lo hi"
  then show "integer_between v lo hi"
    unfolding isPositiveInt_iff by (auto simp: integer_between_def)
next
  assume a: "integer_between v lo hi"
  then obtain q where v: "v = Some (JNum (Finite q))" and q: "q \<in> \<int>"
    and r: "of_int lo \<le> q" "q \<le> of_int hi"
    by (auto simp: integer_between_def split: option.splits json.splits jsnumber.splits)
  obtain n :: int where n: "q = of_int n" using q by (rule Ints_cases)
  have "lo \<le> n" "n \<le> hi" using r unfolding n by simp_all
  then show "isPositiveInt v lo hi"
    unfolding isPositiveInt_iff using v n by blast
qed

lemma number_between_iff: "isNumberInRange v lo hi = number_between v lo hi"
  unfolding isNumberInRange_iff
  by (auto simp: number_between_def split: option.splits json.splits jsnumber.splits)

lemma begins_with_startsWith: "begins_with p s = startsWith s p"
  unfolding startsWith_def by (induction p s rule: begins_with.induct) auto

lemma matches_allowed_prefix_iff: "isAllowedModel v = matches_allowed_prefix v"
  by (cases v rule: truthy.cases)
     (auto simp: isAllowedModel_def matches_allowed_prefix_def allowedPrefixes_def
       begins_with_startsWith toLowerCase_def startsWith_def)

lemma name_character_iff: "isToolNameChar c = name_character c"
proof -
  have "\<forall>c. isToolNameChar c = name_character c" by code_simp
  then show ?thesis by blast
qed

lemma matches_name_pattern_iff: "isToolName n = matches_name_pattern n"
  by (simp add: isToolName_def matches_name_pattern_def name_character_iff[abs_def])

lemma prop_object: "js_prop b k = Some v \<Longrightarrow> \<exists>kvs. b = JObj kvs"
  by (cases b) auto

lemma text_too_long_rejected: "text_too_long b \<Longrightarrow> validateContentBlock h b \<noteq> Ok"
proof -
  assume a: "text_too_long b"
  then have "\<exists>ty. js_prop b ''type'' = Some ty" by (simp add: text_too_long_def)
  then obtain kvs where b: "b = JObj kvs" using prop_object by blast
  show ?thesis
    using a unfolding b
    by (auto simp: text_too_long_def validateContentBlock_def validateTextBlock_def
        MAX_MESSAGE_LENGTH_def split: option.splits json.splits)
qed

lemma image_too_big_rejected: "image_too_big b \<Longrightarrow> validateContentBlock h b \<noteq> Ok"
proof -
  assume a: "image_too_big b"
  then have "\<exists>ty. js_prop b ''type'' = Some ty" by (simp add: image_too_big_def)
  then obtain kvs where b: "b = JObj kvs" using prop_object by blast
  from a obtain src where s: "map_of kvs ''source'' = Some src"
    and t: "js_prop src ''type'' = Some (JStr ''base64'')"
    unfolding b by (auto simp: image_too_big_def split: option.splits)
  obtain skvs where src: "src = JObj skvs" using prop_object[OF t] by blast
  show ?thesis
    using a s t unfolding b src
    by (auto simp: image_too_big_def validateContentBlock_def validateImageBlock_def
        MAX_IMAGE_SIZE_def split: option.splits json.splits)
qed

lemma image_bad_media_type_rejected:
  "image_bad_media_type b \<Longrightarrow> validateContentBlock h b \<noteq> Ok"
proof -
  assume a: "image_bad_media_type b"
  then have "\<exists>ty. js_prop b ''type'' = Some ty" by (simp add: image_bad_media_type_def)
  then obtain kvs where b: "b = JObj kvs" using prop_object by blast
  from a obtain src where s: "map_of kvs ''source'' = Some src"
    and t: "js_prop src ''type'' = Some (JStr ''base64'')"
    unfolding b by (auto simp: image_bad_media_type_def split: option.splits)
  obtain skvs where src: "src = JObj skvs" using prop_object[OF t] by blast
  from a s obtain mt where m: "map_of skvs ''media_type'' = Some (JStr mt)" "mt \<noteq> []"
    "\<not> List.member [''image/jpeg'', ''image/png'', ''image/gif'', ''image/webp''] mt"
    unfolding b src by (auto simp: image_bad_media_type_def split: option.splits json.splits)
  have v: "validateImageBlock h (JObj kvs) \<noteq> Ok"
    using a s t m unfolding src
    by (simp add: validateImageBlock_def isImageMediaType_def split: option.splits json.splits)
  show ?thesis
    using a v unfolding b by (simp add: validateContentBlock_def image_bad_media_type_def)
qed

lemma tool_name_bad_rejected: "tool_name_bad b \<Longrightarrow> validateContentBlock h b \<noteq> Ok"
proof -
  assume a: "tool_name_bad b"
  then have "\<exists>ty. js_prop b ''type'' = Some ty" by (simp add: tool_name_bad_def)
  then obtain kvs where b: "b = JObj kvs" using prop_object by blast
  from a obtain n where n: "map_of kvs ''name'' = Some (JStr n)" "256 < length n \<or> \<not> isToolName n"
    unfolding b
    by (auto simp: tool_name_bad_def matches_name_pattern_iff split: option.splits json.splits)
  have v: "validateToolUseBlock (JObj kvs) \<noteq> Ok"
    using n by (auto simp: validateToolUseBlock_def isNonEmptyString_def MAX_TOOL_NAME_LENGTH_def)
  show ?thesis
    using a v unfolding b by (simp add: validateContentBlock_def tool_name_bad_def)
qed

lemma bad_block_rejected: "bad_block b \<Longrightarrow> validateContentBlock h b \<noteq> Ok"
  unfolding bad_block_def
  using text_too_long_rejected image_too_big_rejected image_bad_media_type_rejected
    tool_name_bad_rejected by blast

lemma validateBlocks_bad:
  "list_ex (\<lambda>b. validateContentBlock h b \<noteq> Ok) blocks \<Longrightarrow> validateBlocks h i blocks \<noteq> Ok"
  by (induction blocks arbitrary: i) (auto split: verdict.splits)

lemma message_bad_block_errors:
  assumes "message_has_bad_block msg"
  shows "messageErrors h i msg \<noteq> []"
proof -
  obtain blocks where c: "js_prop msg ''content'' = Some (JArr blocks)"
    and b: "list_ex bad_block blocks"
    using assms by (auto simp: message_has_bad_block_def split: option.splits json.splits)
  obtain kvs where m: "msg = JObj kvs" using prop_object[OF c] by blast
  have "list_ex (\<lambda>b. validateContentBlock h b \<noteq> Ok) blocks"
    using b bad_block_rejected by (auto simp: list_ex_iff)
  then have "validateMessageContent h (JArr blocks) \<noteq> Ok"
    using validateBlocks_bad by (simp add: validateMessageContent_def)
  then show ?thesis
    using c unfolding m by (simp add: messageErrors_def split: verdict.splits)
qed

lemma messagesLoop_bad:
  "list_ex message_has_bad_block msgs \<Longrightarrow> messagesLoop h i msgs \<noteq> []"
  by (induction msgs arbitrary: i) (auto simp: message_bad_block_errors)

lemma messagesSection_bad_block:
  assumes "body_has_bad_block body"
  shows "messagesSection h body \<noteq> []"
proof -
  obtain msgs where m: "js_prop body ''messages'' = Some (JArr msgs)"
    and b: "list_ex message_has_bad_block msgs"
    using assms by (auto simp: body_has_bad_block_def split: option.splits json.splits)
  show ?thesis
    using messagesLoop_bad[OF b] by (simp add: messagesSection_def m)
qed

lemma messagesSection_missing:
  assumes "messages_missing_empty_or_long body"
  shows "messagesSection h body \<noteq> []"
proof (cases "js_prop body ''messages''")
  case None
  then show ?thesis by (simp add: messagesSection_def)
next
  case (Some v)
  then obtain msgs where v: "v = JArr msgs" and l: "msgs = [] \<or> 500 < length msgs"
    using assms by (auto simp: messages_missing_empty_or_long_def split: json.splits)
  show ?thesis
    using l by (auto simp: messagesSection_def Some v MAX_MESSAGES_def)
qed

lemma toolsSection_many:
  assumes "too_many_tools body" and "toolsSection body = Inr e"
  shows "e \<noteq> []"
proof -
  obtain ts where t: "js_prop body ''tools'' = Some (JArr ts)" and l: "100 < length ts"
    using assms(1) by (auto simp: too_many_tools_def split: option.splits json.splits)
  show ?thesis
    using assms(2) l by (auto simp: toolsSection_def t MAX_TOOLS_def)
qed

lemma thinkingSection_budget:
  assumes "bad_budget_tokens body" and "thinkingSection body = Inr e"
  shows "e \<noteq> []"
proof -
  obtain t where t: "js_prop body ''thinking'' = Some t"
    and b: "js_prop t ''budget_tokens'' \<noteq> None"
      "\<not> isPositiveInt (js_prop t ''budget_tokens'') 1000 100000"
    using assms(1) by (auto simp: bad_budget_tokens_def integer_between_iff split: option.splits)
  obtain kvs where k: "t = JObj kvs" using b(1) prop_object by blast
  show ?thesis
    using assms(2) b by (auto simp: thinkingSection_def t k)
qed

text \<open>
  Claim C2, as stated: an invalid body should come back with a single error message. The
  validator collects one message per failed check: the body with an empty \<open>messages\<close>
  and \<open>max_tokens = 0\<close> comes back with two.
\<close>

theorem C2_two_messages_counterexample:
  "validateMessages demo_host two_errors_body
     = Inr (Invalid [''messages cannot be empty'',
                     ''max_tokens must be integer between 1 and 200000''])"
  by (simp add: validate_defs two_errors_body_def isPositiveInt_def MAX_TOKENS_UPPER_def)

text \<open>
  A body whose \<open>thinking\<close> is \<open>null\<close> makes the validator throw instead of return,
  whatever else is wrong with the body.
\<close>

lemma null_thinking_throws:
  "validateMessages h null_thinking_body
     = Inl (TypeError ''Cannot read properties of null (reading 'budget_tokens')'')"
  by (simp add: validate_defs null_thinking_body_def hi_messages_def)

lemma validate_sections:
  assumes "validateMessages h body = Inr res" and "\<not> hasPrototypePollution body 0"
  obtains se te ke where "systemSection body = Inr se" "toolsSection body = Inr te"
    "thinkingSection body = Inr ke"
    "res = (if messagesSection h body @ modelSection body @ maxTokensSection body
                 @ temperatureSection body @ topPSection body @ topKSection body
                 @ streamSection body @ se @ te @ ke \<noteq> []
            then Invalid (messagesSection h body @ modelSection body @ maxTokensSection body
                 @ temperatureSection body @ topPSection body @ topKSection body
                 @ streamSection body @ se @ te @ ke)
            else Valid (validatedData body))"
  using assms
  by (auto simp: validateMessages_def Let_def split: if_splits sum.splits)


lemma sections_nonempty:
  assumes "rejectable body" and "\<not> contains_dangerous_key body" and "\<not> 50 < nesting_depth body"
    and "toolsSection body = Inr te" and "thinkingSection body = Inr ke"
  shows "messagesSection h body \<noteq> [] \<or> modelSection body \<noteq> [] \<or> maxTokensSection body \<noteq> []
         \<or> temperatureSection body \<noteq> [] \<or> topPSection body \<noteq> [] \<or> topKSection body \<noteq> []
         \<or> te \<noteq> [] \<or> ke \<noteq> []"
proof -
  consider "messages_missing_empty_or_long body" | "body_has_bad_block body"
    | "js_prop body ''max_tokens'' \<noteq> None \<and> \<not> isPositiveInt (js_prop body ''max_tokens'') 1 200000"
    | "js_prop body ''temperature'' \<noteq> None \<and> \<not> isNumberInRange (js_prop body ''temperature'') 0 2"
    | "js_prop body ''top_p'' \<noteq> None \<and> \<not> isNumberInRange (js_prop body ''top_p'') 0 1"
    | "js_prop body ''top_k'' \<noteq> None \<and> \<not> isPositiveInt (js_prop body ''top_k'') 1 500"
    | "too_many_tools body" | "bad_budget_tokens body"
    | "js_prop body ''model'' \<noteq> None \<and> \<not> isAllowedModel (js_prop body ''model'')"
    using assms(1-3)
    unfolding rejectable_def integer_between_iff[symmetric] number_between_iff[symmetric]
      matches_allowed_prefix_iff[symmetric]
    by blast
  then show ?thesis
  proof cases
    case 1 then show ?thesis using messagesSection_missing by blast
  next
    case 2 then show ?thesis using messagesSection_bad_block by blast
  next
    case 3 then show ?thesis by (simp add: maxTokensSection_def MAX_TOKENS_UPPER_def)
  next
    case 4 then show ?thesis by (simp add: temperatureSection_def)
  next
    case 5 then show ?thesis by (simp add: topPSection_def)
  next
    case 6 then show ?thesis by (simp add: topKSection_def)
  next
    case 7 then show ?thesis using toolsSection_many[OF _ assms(4)] by blast
  next
    case 8 then show ?thesis using thinkingSection_budget[OF _ assms(5)] by blast
  next
    case 9
    then obtain v where v: "js_prop body ''model'' = Some v" by auto
    show ?thesis
    proof (cases v)
      case (JStr m)
      then show ?thesis using 9 v by (simp add: modelSection_def)
    qed (use v in \<open>simp_all add: modelSection_def\<close>)
  qed
qed

text \<open>A body that reaches the validation step is answered by it.\<close>

lemma route_validates:
  assumes "reaches_validation body"
  shows "messages_try h env body = validationStep h body"
  using assms
  by (auto simp: reaches_validation_def messages_try_def
      split: option.splits json.splits jsnumber.splits)

text \<open>
  Claim C2, amended: for every body for which one of the conditions holds, the validator,
  when it returns, returns invalid with a non-empty list of error messages. The validation
  step of the handler answers 400 \<open>invalid_request_error\<close> with the first of them, and
  that is the answer of the route for every such body that reaches the step. For a
  dangerous key or a nesting depth over 50 the list is the single message
  \<open>Prototype pollution attempt detected\<close>.
\<close>

theorem C2_rejectable_body_is_invalid:
  assumes "rejectable body" and "validateMessages h body = Inr res"
  shows "\<exists>errs. errs \<noteq> [] \<and> res = Invalid errs
           \<and> validationStep h body = Answered 400 (errorBody ''invalid_request_error'' (hd errs))
           \<and> (reaches_validation body \<longrightarrow>
                messages_route h env r body
                  = Rejected 400 (errorBody ''invalid_request_error'' (hd errs)))
           \<and> (contains_dangerous_key body \<or> 50 < nesting_depth body
                \<longrightarrow> errs = [''Prototype pollution attempt detected''])"
proof -
  have step: "\<exists>errs. errs \<noteq> [] \<and> res = Invalid errs
           \<and> validationStep h body = Answered 400 (errorBody ''invalid_request_error'' (hd errs))
           \<and> (contains_dangerous_key body \<or> 50 < nesting_depth body
                \<longrightarrow> errs = [''Prototype pollution attempt detected''])"
  proof (cases "hasPrototypePollution body 0")
    case True
    then have "res = Invalid [''Prototype pollution attempt detected'']"
      using assms(2) by (simp add: validateMessages_def)
    then show ?thesis
      using assms(2) by (simp add: validationStep_def errorBody_def)
  next
    case False
    then have nk: "\<not> contains_dangerous_key body" and nd: "\<not> 50 < nesting_depth body"
      using dangerous_key_detected too_deep_detected by blast+
    obtain se te ke where s: "systemSection body = Inr se" "toolsSection body = Inr te"
      "thinkingSection body = Inr ke"
      and r: "res = (if messagesSection h body @ modelSection body @ maxTokensSection body
                   @ temperatureSection body @ topPSection body @ topKSection body
                   @ streamSection body @ se @ te @ ke \<noteq> []
              then Invalid (messagesSection h body @ modelSection body @ maxTokensSection body
                   @ temperatureSection body @ topPSection body @ topKSection body
                   @ streamSection body @ se @ te @ ke)
              else Valid (validatedData body))"
      using validate_sections[OF assms(2) False] by blast
    define errs where "errs = messagesSection h body @ modelSection body @ maxTokensSection body
                   @ temperatureSection body @ topPSection body @ topKSection body
                   @ streamSection body @ se @ te @ ke"
    have ne: "errs \<noteq> []"
      using sections_nonempty[OF assms(1) nk nd s(2) s(3), of h] unfolding errs_def by simp
    have res: "res = Invalid errs" using r ne unfolding errs_def by simp
    obtain e es where c: "errs = e # es" using ne by (cases errs) auto
    have "validationStep h body = Answered 400 (errorBody ''invalid_request_error'' (hd errs))"
      using assms(2) c unfolding res by (simp add: validationStep_def errorBody_def)
    then show ?thesis using ne res nk nd by blast
  qed
  then obtain errs where e: "errs \<noteq> []" "res = Invalid errs"
    "validationStep h body = Answered 400 (errorBody ''invalid_request_error'' (hd errs))"
    "contains_dangerous_key body \<or> 50 < nesting_depth body
       \<longrightarrow> errs = [''Prototype pollution attempt detected'']"
    by blast
  have "reaches_validation body \<longrightarrow>
          messages_route h env r body
            = Rejected 400 (errorBody ''invalid_request_error'' (hd errs))"
    using e(3) route_validates[of body h env] by (simp add: messages_route_def)
  then show ?thesis using e by blast
qed

theorem C2_rejectable_body_witness:
  "rejectable zero_max_tokens_body
   \<and> reaches_validation zero_max_tokens_body
   \<and> validateMessages demo_host zero_max_tokens_body
     = Inr (Invalid [''max_tokens must be integer between 1 and 200000''])
   \<and> validationStep demo_host zero_max_tokens_body
     = Answered 400
         (errorBody ''invalid_request_error''
            ''max_tokens must be integer between 1 and 200000'')
   \<and> messages_route demo_host demo_env [] zero_max_tokens_body
     = Rejected 400
         (errorBody ''invalid_request_error''
            ''max_tokens must be integer between 1 and 200000'')"
proof -
  have a: "rejectable zero_max_tokens_body"
    by (simp add: rejectable_def zero_max_tokens_body_def integer_between_def)
  have b: "reaches_validation zero_max_tokens_body"
    by (simp add: reaches_validation_def zero_max_tokens_body_def)
  have v: "validateMessages demo_host zero_max_tokens_body
             = Inr (Invalid [''max_tokens must be integer between 1 and 200000''])"
    by (simp add: validate_defs zero_max_tokens_body_def hi_messages_def isPositiveInt_def
        MAX_TOKENS_UPPER_def)
  show ?thesis
    using a b v C2_rejectable_body_is_invalid[OF a v, of demo_env "[]"] by auto
qed

end
